theory Spec2Isabelle
  imports Complex_Main "HOL-Library.Multiset"
begin

section \<open>JavaScript numbers\<close>

text \<open>
  The engine computes with JavaScript numbers. They are modelled as the reals extended by
  the two infinities and NaN: arithmetic on finite values is exact (rounding, overflow and
  the sign of zero are not modelled), and every operation follows the IEEE 754 /
  ECMAScript rules on the special values, so that a division by zero or the logarithm of
  a non-positive number yields the non-finite value the program would see.
\<close>

datatype jsnum = Fin real | PInf | NInf | NaN

fun js_finite :: "jsnum \<Rightarrow> bool" where
  "js_finite (Fin a) = True"
| "js_finite _ = False"

fun js_neg :: "jsnum \<Rightarrow> jsnum" where
  "js_neg (Fin a) = Fin (- a)"
| "js_neg PInf = NInf"
| "js_neg NInf = PInf"
| "js_neg NaN = NaN"

fun js_add :: "jsnum \<Rightarrow> jsnum \<Rightarrow> jsnum" where
  "js_add (Fin a) (Fin b) = Fin (a + b)"
| "js_add (Fin a) PInf = PInf"
| "js_add (Fin a) NInf = NInf"
| "js_add PInf (Fin b) = PInf"
| "js_add PInf PInf = PInf"
| "js_add PInf NInf = NaN"
| "js_add NInf (Fin b) = NInf"
| "js_add NInf PInf = NaN"
| "js_add NInf NInf = NInf"
| "js_add NaN y = NaN"
| "js_add x NaN = NaN"

definition js_sub :: "jsnum \<Rightarrow> jsnum \<Rightarrow> jsnum" where
  "js_sub x y = js_add x (js_neg y)"

fun js_mul :: "jsnum \<Rightarrow> jsnum \<Rightarrow> jsnum" where
  "js_mul (Fin a) (Fin b) = Fin (a * b)"
| "js_mul (Fin a) PInf = (if a = 0 then NaN else if 0 < a then PInf else NInf)"
| "js_mul (Fin a) NInf = (if a = 0 then NaN else if 0 < a then NInf else PInf)"
| "js_mul PInf (Fin b) = (if b = 0 then NaN else if 0 < b then PInf else NInf)"
| "js_mul NInf (Fin b) = (if b = 0 then NaN else if 0 < b then NInf else PInf)"
| "js_mul PInf PInf = PInf"
| "js_mul PInf NInf = NInf"
| "js_mul NInf PInf = NInf"
| "js_mul NInf NInf = PInf"
| "js_mul NaN y = NaN"
| "js_mul x NaN = NaN"

fun js_div :: "jsnum \<Rightarrow> jsnum \<Rightarrow> jsnum" where
  "js_div (Fin a) (Fin b) =
     (if b \<noteq> 0 then Fin (a / b)
      else if a = 0 then NaN else if 0 < a then PInf else NInf)"
| "js_div (Fin a) PInf = Fin 0"
| "js_div (Fin a) NInf = Fin 0"
| "js_div PInf (Fin b) = (if 0 \<le> b then PInf else NInf)"
| "js_div NInf (Fin b) = (if 0 \<le> b then NInf else PInf)"
| "js_div PInf PInf = NaN"
| "js_div PInf NInf = NaN"
| "js_div NInf PInf = NaN"
| "js_div NInf NInf = NaN"
| "js_div NaN y = NaN"
| "js_div x NaN = NaN"

text \<open>Comparisons: every comparison with NaN is false.\<close>

fun js_lt :: "jsnum \<Rightarrow> jsnum \<Rightarrow> bool" where
  "js_lt (Fin a) (Fin b) = (a < b)"
| "js_lt (Fin a) PInf = True"
| "js_lt (Fin a) NInf = False"
| "js_lt PInf y = False"
| "js_lt NInf (Fin b) = True"
| "js_lt NInf PInf = True"
| "js_lt NInf NInf = False"
| "js_lt NaN y = False"
| "js_lt x NaN = False"

definition js_gt :: "jsnum \<Rightarrow> jsnum \<Rightarrow> bool" where
  "js_gt x y = js_lt y x"

definition js_ge :: "jsnum \<Rightarrow> jsnum \<Rightarrow> bool" where
  "js_ge x y = (x \<noteq> NaN \<and> y \<noteq> NaN \<and> \<not> js_lt x y)"

fun js_abs :: "jsnum \<Rightarrow> jsnum" where
  "js_abs (Fin a) = Fin \<bar>a\<bar>"
| "js_abs PInf = PInf"
| "js_abs NInf = PInf"
| "js_abs NaN = NaN"

text \<open>\<open>Math.log\<close>.\<close>

fun js_log :: "jsnum \<Rightarrow> jsnum" where
  "js_log (Fin a) = (if a < 0 then NaN else if a = 0 then NInf else Fin (ln a))"
| "js_log PInf = PInf"
| "js_log NInf = NaN"
| "js_log NaN = NaN"

definition is_integral :: "real \<Rightarrow> bool" where
  "is_integral e = (of_int \<lfloor>e\<rfloor> = e)"

definition is_odd_integer :: "real \<Rightarrow> bool" where
  "is_odd_integer e = (is_integral e \<and> odd \<lfloor>e\<rfloor>)"

text \<open>
  \<open>Math.pow\<close>, by the case table of ECMAScript's \<open>Number::exponentiate\<close>: a NaN exponent
  gives NaN, a zero exponent gives 1 whatever the base, a base of absolute value 1 with an
  infinite exponent gives NaN, a negative base with a non-integral exponent gives NaN.
\<close>

fun js_pow :: "jsnum \<Rightarrow> jsnum \<Rightarrow> jsnum" where
  "js_pow b NaN = NaN"
| "js_pow b (Fin e) =
     (if e = 0 then Fin 1
      else case b of
        NaN \<Rightarrow> NaN
      | PInf \<Rightarrow> (if 0 < e then PInf else Fin 0)
      | NInf \<Rightarrow> (if 0 < e then (if is_odd_integer e then NInf else PInf) else Fin 0)
      | Fin x \<Rightarrow>
          (if x = 0 then (if 0 < e then Fin 0 else PInf)
           else if is_integral e then
             (if 0 \<le> e then Fin (x ^ nat \<lfloor>e\<rfloor>) else Fin (1 / x ^ nat \<lfloor>- e\<rfloor>))
           else if x < 0 then NaN
           else Fin (x powr e)))"
| "js_pow b PInf =
     (case b of
        NaN \<Rightarrow> NaN
      | PInf \<Rightarrow> PInf
      | NInf \<Rightarrow> PInf
      | Fin x \<Rightarrow> (if 1 < \<bar>x\<bar> then PInf else if \<bar>x\<bar> = 1 then NaN else Fin 0))"
| "js_pow b NInf =
     (case b of
        NaN \<Rightarrow> NaN
      | PInf \<Rightarrow> Fin 0
      | NInf \<Rightarrow> Fin 0
      | Fin x \<Rightarrow> (if 1 < \<bar>x\<bar> then Fin 0 else if \<bar>x\<bar> = 1 then NaN else PInf))"

text \<open>
  Reading \<open>xs[i]\<close>: an index that is not a natural number below the length reads
  \<open>undefined\<close> (\<open>None\<close>).
\<close>

definition js_index :: "'a list \<Rightarrow> real \<Rightarrow> 'a option" where
  "js_index xs i =
     (if is_integral i \<and> 0 \<le> i \<and> nat \<lfloor>i\<rfloor> < length xs then Some (xs ! nat \<lfloor>i\<rfloor>) else None)"

text \<open>\<open>v || 0\<close> for a number or \<open>undefined\<close>: \<open>undefined\<close>, NaN and 0 are falsy.\<close>

fun js_or_zero :: "jsnum option \<Rightarrow> jsnum" where
  "js_or_zero None = Fin 0"
| "js_or_zero (Some NaN) = Fin 0"
| "js_or_zero (Some v) = v"

section \<open>Model inputs\<close>

text \<open>
  The parameter object destructured at the head of \<open>runFinancialModel\<close>. Every numeric
  parameter is a finite number, of either sign and not necessarily an integer (the
  sensitivity sweep itself passes fractional fleet sizes); \<open>gh_45Q_eligible\<close> is the only
  boolean. Non-finite values arise only inside the computation.
\<close>

record inputs =
  CO2_tpd :: real
  f_avail :: real
  E_spec :: real
  W_total :: real
  CR_45Q :: real
  f_45Q :: real
  T_45Q :: real
  Y_45Q_infl :: real
  r_CPI :: real
  Q_thresh_45Q :: real
  P_VCM :: real
  f_VCM :: real
  r_VCM :: real
  P_offtake :: real
  f_offtake :: real
  r_offtake :: real
  P_comply :: real
  f_comply :: real
  gh_45Q_eligible :: bool
  f_greenhouse :: real
  P_greenhouse :: real
  C_vessels :: real
  C_adsorbent :: real
  C_HX :: real
  C_blower :: real
  C_valves :: real
  C_compressor :: real
  C_pretreat :: real
  C_controls :: real
  C_electrical :: real
  C_piping :: real
  C_container :: real
  f_install :: real
  f_engineering :: real
  P_elec :: real
  T_ads_life :: real
  C_valve_maint :: real
  C_cal :: real
  f_insurance :: real
  C_monitor :: real
  f_maint :: real
  r_OPEX :: real
  r_disc :: real
  T_project :: real
  Y_start :: real
  r_rev :: real
  N_units :: real
  LR :: real
  units_per_year :: real

section \<open>Deployment scheduler and capital cost\<close>

definition CO2_tpy :: "inputs \<Rightarrow> real" where
  "CO2_tpy inp = CO2_tpd inp * 365 * f_avail inp"

definition C_equipment :: "inputs \<Rightarrow> real" where
  "C_equipment inp =
     C_vessels inp + C_adsorbent inp + C_HX inp + C_blower inp + C_valves inp
     + C_compressor inp + C_pretreat inp + C_controls inp + C_electrical inp
     + C_piping inp + C_container inp"

definition CAPEX_unit1 :: "inputs \<Rightarrow> real" where
  "CAPEX_unit1 inp = C_equipment inp * (1 + f_install inp + f_engineering inp)"

definition lr_exp :: "inputs \<Rightarrow> jsnum" where
  "lr_exp inp = js_div (js_log (Fin (LR inp))) (js_log (Fin 2))"

text \<open>
  \<open>for (let n = 1; n <= N_units; n++) { c = ...; unit_capex.push(c); capex_fleet_total += c }\<close>:
  the state is the pair of the array and the running total.
\<close>

function capex_loop :: "inputs \<Rightarrow> nat \<Rightarrow> jsnum list \<times> jsnum \<Rightarrow> jsnum list \<times> jsnum" where
  "capex_loop inp n (uc, tot) =
     (if real n \<le> N_units inp then
        (let c = js_mul (Fin (CAPEX_unit1 inp)) (js_pow (Fin (real n)) (lr_exp inp))
         in capex_loop inp (Suc n) (uc @ [c], js_add tot c))
      else (uc, tot))"
  by pat_completeness auto
termination
  by (relation "measure (\<lambda>(inp, n, s). nat (\<lfloor>N_units inp\<rfloor> + 1) - n)") (auto, linarith)

declare capex_loop.simps [simp del]

definition unit_capex :: "inputs \<Rightarrow> jsnum list" where
  "unit_capex inp = fst (capex_loop inp 1 ([], Fin 0))"

definition capex_fleet_total :: "inputs \<Rightarrow> jsnum" where
  "capex_fleet_total inp = snd (capex_loop inp 1 ([], Fin 0))"

definition N_deployed :: "inputs \<Rightarrow> nat \<Rightarrow> real" where
  "N_deployed inp y = min (N_units inp) (of_int \<lfloor>real y * units_per_year inp\<rfloor> + 1)"

definition N_prev :: "inputs \<Rightarrow> nat \<Rightarrow> real" where
  "N_prev inp y =
     (if y = 0 then 0
      else min (N_units inp) (of_int \<lfloor>(real y - 1) * units_per_year inp\<rfloor> + 1))"

definition CO2_fleet :: "inputs \<Rightarrow> nat \<Rightarrow> real" where
  "CO2_fleet inp y = N_deployed inp y * CO2_tpy inp"

definition is_45Q_eligible :: "inputs \<Rightarrow> nat \<Rightarrow> bool" where
  "is_45Q_eligible inp y = (CO2_fleet inp y \<ge> Q_thresh_45Q inp)"

text \<open>\<open>for (let n = N_prev + 1; n <= N_deployed; n++) capex_year += unit_capex[n - 1] || 0\<close>\<close>

function capex_year_loop :: "jsnum list \<Rightarrow> real \<Rightarrow> real \<Rightarrow> jsnum \<Rightarrow> jsnum" where
  "capex_year_loop uc hi n acc =
     (if n \<le> hi then
        capex_year_loop uc hi (n + 1) (js_add acc (js_or_zero (js_index uc (n - 1))))
      else acc)"
  by pat_completeness auto
termination
  by (relation "measure (\<lambda>(uc, hi, n, acc). nat (\<lfloor>hi - n\<rfloor> + 1))") (auto, linarith)

declare capex_year_loop.simps [simp del]

definition capex_year :: "inputs \<Rightarrow> nat \<Rightarrow> jsnum" where
  "capex_year inp y =
     capex_year_loop (unit_capex inp) (N_deployed inp y) (N_prev inp y + 1) (Fin 0)"

text \<open>\<open>for (let n = 0; n < N_deployed; n++) capex_cum += unit_capex[n] || 0\<close>\<close>

function capex_cum_loop :: "jsnum list \<Rightarrow> real \<Rightarrow> nat \<Rightarrow> jsnum \<Rightarrow> jsnum" where
  "capex_cum_loop uc hi n acc =
     (if real n < hi then
        capex_cum_loop uc hi (Suc n) (js_add acc (js_or_zero (js_index uc (real n))))
      else acc)"
  by pat_completeness auto
termination
  by (relation "measure (\<lambda>(uc, hi, n, acc). nat \<lceil>hi\<rceil> - n)") (auto, linarith)

declare capex_cum_loop.simps [simp del]

definition capex_cum :: "inputs \<Rightarrow> nat \<Rightarrow> jsnum" where
  "capex_cum inp y = capex_cum_loop (unit_capex inp) (N_deployed inp y) 0 (Fin 0)"

section \<open>Revenue\<close>

definition escalation_rev :: "inputs \<Rightarrow> nat \<Rightarrow> jsnum" where
  "escalation_rev inp y = js_pow (Fin (1 + r_rev inp / 100)) (Fin (real y))"

text \<open>
  The local \<open>cr\<close> of the 45Q block: the base rate, replaced by the escalated rate when the
  calendar year \<open>year = Y_start + y\<close> has reached \<open>Y_45Q_infl\<close>.
\<close>

definition cr :: "inputs \<Rightarrow> nat \<Rightarrow> jsnum" where
  "cr inp y =
     (let year = Y_start inp + real y
      in if year \<ge> Y_45Q_infl inp then
           js_mul (Fin (CR_45Q inp))
             (js_pow (Fin (1 + r_CPI inp / 100)) (Fin (year - Y_45Q_infl inp)))
         else Fin (CR_45Q inp))"

definition R_45Q :: "inputs \<Rightarrow> nat \<Rightarrow> jsnum" where
  "R_45Q inp y =
     (if f_45Q inp > 0 \<and> real y \<le> T_45Q inp \<and> is_45Q_eligible inp y then
        (let CO2_non_gh = CO2_fleet inp y * f_45Q inp * (1 - f_greenhouse inp);
             CO2_gh = CO2_fleet inp y * f_greenhouse inp
         in if gh_45Q_eligible inp then js_mul (Fin (CO2_non_gh + CO2_gh)) (cr inp y)
            else js_mul (Fin CO2_non_gh) (cr inp y))
      else Fin 0)"

definition P_VCM_y :: "inputs \<Rightarrow> nat \<Rightarrow> jsnum" where
  "P_VCM_y inp y = js_mul (Fin (P_VCM inp)) (js_pow (Fin (1 + r_VCM inp / 100)) (Fin (real y)))"

definition R_VCM :: "inputs \<Rightarrow> nat \<Rightarrow> jsnum" where
  "R_VCM inp y = js_mul (Fin (CO2_fleet inp y * f_VCM inp)) (P_VCM_y inp y)"

definition P_offtake_y :: "inputs \<Rightarrow> nat \<Rightarrow> jsnum" where
  "P_offtake_y inp y =
     js_mul (Fin (P_offtake inp)) (js_pow (Fin (1 + r_offtake inp / 100)) (Fin (real y)))"

definition P_gh_y :: "inputs \<Rightarrow> nat \<Rightarrow> jsnum" where
  "P_gh_y inp y =
     js_mul (Fin (P_greenhouse inp)) (js_pow (Fin (1 + r_offtake inp / 100)) (Fin (real y)))"

definition R_offtake_non_gh :: "inputs \<Rightarrow> nat \<Rightarrow> jsnum" where
  "R_offtake_non_gh inp y =
     js_mul (Fin (CO2_fleet inp y * max 0 (f_offtake inp - f_greenhouse inp))) (P_offtake_y inp y)"

definition R_offtake_gh :: "inputs \<Rightarrow> nat \<Rightarrow> jsnum" where
  "R_offtake_gh inp y = js_mul (Fin (CO2_fleet inp y * f_greenhouse inp)) (P_gh_y inp y)"

definition R_offtake :: "inputs \<Rightarrow> nat \<Rightarrow> jsnum" where
  "R_offtake inp y = js_add (R_offtake_non_gh inp y) (R_offtake_gh inp y)"

definition R_comply :: "inputs \<Rightarrow> nat \<Rightarrow> jsnum" where
  "R_comply inp y =
     js_mul (Fin (CO2_fleet inp y * f_comply inp * P_comply inp)) (escalation_rev inp y)"

definition R_total :: "inputs \<Rightarrow> nat \<Rightarrow> jsnum" where
  "R_total inp y =
     js_add (js_add (js_add (R_45Q inp y) (R_VCM inp y)) (R_offtake inp y)) (R_comply inp y)"

section \<open>Operating cost and cash flow\<close>

definition opex_escalation :: "inputs \<Rightarrow> nat \<Rightarrow> jsnum" where
  "opex_escalation inp y = js_pow (Fin (1 + r_OPEX inp / 100)) (Fin (real y))"

definition C_elec :: "inputs \<Rightarrow> nat \<Rightarrow> real" where
  "C_elec inp y = N_deployed inp y * W_total inp * 8760 * f_avail inp * P_elec inp"

definition C_ads_replace :: "inputs \<Rightarrow> nat \<Rightarrow> jsnum" where
  "C_ads_replace inp y =
     js_div (Fin (N_deployed inp y * C_adsorbent inp)) (Fin (T_ads_life inp))"

definition C_fixed :: "inputs \<Rightarrow> nat \<Rightarrow> real" where
  "C_fixed inp y = N_deployed inp y * (C_valve_maint inp + C_cal inp + C_monitor inp)"

definition C_insure :: "inputs \<Rightarrow> nat \<Rightarrow> jsnum" where
  "C_insure inp y = js_div (js_mul (capex_cum inp y) (Fin (f_insurance inp))) (Fin 100)"

definition C_gen_maint :: "inputs \<Rightarrow> nat \<Rightarrow> jsnum" where
  "C_gen_maint inp y = js_div (js_mul (capex_cum inp y) (Fin (f_maint inp))) (Fin 100)"

definition OPEX :: "inputs \<Rightarrow> nat \<Rightarrow> jsnum" where
  "OPEX inp y =
     js_mul
       (js_add (js_add (js_add (js_add (Fin (C_elec inp y)) (C_ads_replace inp y))
          (Fin (C_fixed inp y))) (C_insure inp y)) (C_gen_maint inp y))
       (opex_escalation inp y)"

definition CF :: "inputs \<Rightarrow> nat \<Rightarrow> jsnum" where
  "CF inp y = js_sub (js_sub (R_total inp y) (OPEX inp y)) (capex_year inp y)"

definition discount_factor :: "inputs \<Rightarrow> nat \<Rightarrow> jsnum" where
  "discount_factor inp y = js_pow (Fin (1 + r_disc inp / 100)) (Fin (real y))"

definition DCF :: "inputs \<Rightarrow> nat \<Rightarrow> jsnum" where
  "DCF inp y = js_div (CF inp y) (discount_factor inp y)"

section \<open>Year-by-year simulation\<close>

text \<open>The object pushed onto \<open>years\<close> in each iteration.\<close>

record year_record =
  yr_year :: real
  yr_y :: nat
  yr_N_deployed :: real
  yr_CO2_fleet :: real
  yr_is_45Q_eligible :: bool
  yr_R_45Q :: jsnum
  yr_R_VCM :: jsnum
  yr_R_offtake :: jsnum
  yr_R_comply :: jsnum
  yr_R_total :: jsnum
  yr_OPEX :: jsnum
  yr_capex_year :: jsnum
  yr_CF :: jsnum
  yr_DCF :: jsnum
  yr_cumulative_dcf :: jsnum
  yr_R_per_ton :: jsnum
  yr_OPEX_per_ton :: jsnum

text \<open>The variables the year loop updates.\<close>

record sim_state =
  st_years :: "year_record list"
  st_cumulative_dcf :: jsnum
  st_payback_disc :: "nat option"
  st_payback_simple :: "nat option"
  st_cumulative_cf_undiscounted :: jsnum

definition sim_init :: sim_state where
  "sim_init =
     \<lparr> st_years = [], st_cumulative_dcf = Fin 0, st_payback_disc = None,
       st_payback_simple = None, st_cumulative_cf_undiscounted = Fin 0 \<rparr>"

text \<open>One iteration of the body of \<open>for (let y = 0; y <= T_project; y++)\<close>.\<close>

definition year_step :: "inputs \<Rightarrow> nat \<Rightarrow> sim_state \<Rightarrow> sim_state" where
  "year_step inp y st =
     (let cumulative_dcf = js_add (st_cumulative_dcf st) (DCF inp y);
          cumulative_cf_undiscounted = js_add (st_cumulative_cf_undiscounted st) (CF inp y);
          payback_disc =
            (if st_payback_disc st = None \<and> js_ge cumulative_dcf (Fin 0) \<and> y > 0
             then Some y else st_payback_disc st);
          payback_simple =
            (if st_payback_simple st = None \<and> js_ge cumulative_cf_undiscounted (Fin 0) \<and> y > 0
             then Some y else st_payback_simple st);
          rec = \<lparr> yr_year = Y_start inp + real y, yr_y = y,
                  yr_N_deployed = N_deployed inp y, yr_CO2_fleet = CO2_fleet inp y,
                  yr_is_45Q_eligible = is_45Q_eligible inp y,
                  yr_R_45Q = R_45Q inp y, yr_R_VCM = R_VCM inp y,
                  yr_R_offtake = R_offtake inp y, yr_R_comply = R_comply inp y,
                  yr_R_total = R_total inp y,
                  yr_OPEX = OPEX inp y, yr_capex_year = capex_year inp y,
                  yr_CF = CF inp y, yr_DCF = DCF inp y, yr_cumulative_dcf = cumulative_dcf,
                  yr_R_per_ton =
                    (if CO2_fleet inp y > 0 then js_div (R_total inp y) (Fin (CO2_fleet inp y))
                     else Fin 0),
                  yr_OPEX_per_ton =
                    (if CO2_fleet inp y > 0 then js_div (OPEX inp y) (Fin (CO2_fleet inp y))
                     else Fin 0) \<rparr>
      in \<lparr> st_years = st_years st @ [rec], st_cumulative_dcf = cumulative_dcf,
           st_payback_disc = payback_disc, st_payback_simple = payback_simple,
           st_cumulative_cf_undiscounted = cumulative_cf_undiscounted \<rparr>)"

function year_loop :: "inputs \<Rightarrow> nat \<Rightarrow> sim_state \<Rightarrow> sim_state" where
  "year_loop inp y st =
     (if real y \<le> T_project inp then year_loop inp (Suc y) (year_step inp y st) else st)"
  by pat_completeness auto
termination
  by (relation "measure (\<lambda>(inp, y, st). nat (\<lfloor>T_project inp\<rfloor> + 1) - y)") (auto, linarith)

declare year_loop.simps [simp del]

definition simulate_years :: "inputs \<Rightarrow> sim_state" where
  "simulate_years inp = year_loop inp 0 sim_init"

section \<open>Financial metrics\<close>

subsection \<open>IRR by bisection\<close>

text \<open>\<open>for (const yr of years) npv_test += yr.CF / Math.pow(1 + mid, yr.y)\<close>\<close>

definition irr_npv_test :: "year_record list \<Rightarrow> real \<Rightarrow> jsnum" where
  "irr_npv_test yrs mid =
     foldl (\<lambda>npv_test yr.
        js_add npv_test (js_div (yr_CF yr) (js_pow (Fin (1 + mid)) (Fin (real (yr_y yr))))))
       (Fin 0) yrs"

text \<open>The bracket update of one iteration: \<open>if (npv_test > 0) lo = mid; else hi = mid\<close>.\<close>

definition irr_step :: "year_record list \<Rightarrow> real \<times> real \<Rightarrow> real \<times> real" where
  "irr_step yrs b =
     (let lo = fst b; hi = snd b; mid = (lo + hi) / 2
      in if js_gt (irr_npv_test yrs mid) (Fin 0) then (mid, hi) else (lo, mid))"

text \<open>
  \<open>for (let iter = 0; iter < 100; iter++) { ...; if (Math.abs(hi - lo) < 0.0001) break; }\<close>
\<close>

function irr_loop :: "year_record list \<Rightarrow> nat \<Rightarrow> real \<times> real \<Rightarrow> real \<times> real" where
  "irr_loop yrs iter b =
     (if iter < 100 then
        (let b' = irr_step yrs b
         in if \<bar>snd b' - fst b'\<bar> < 0.0001 then b' else irr_loop yrs (Suc iter) b')
      else b)"
  by pat_completeness auto
termination
  by (relation "measure (\<lambda>(yrs, iter, b). 100 - iter)") auto

declare irr_loop.simps [simp del]

definition irr_bracket :: "year_record list \<Rightarrow> real \<times> real" where
  "irr_bracket yrs = irr_loop yrs 0 (- 0.5, 2.0)"

definition IRR :: "year_record list \<Rightarrow> real option" where
  "IRR yrs =
     (let lo = fst (irr_bracket yrs); hi = snd (irr_bracket yrs)
      in if \<bar>lo - (- 0.5)\<bar> > 0.01 \<and> \<bar>hi - 2.0\<bar> > 0.01 then Some ((lo + hi) / 2) else None)"

subsection \<open>Levelized cost\<close>

definition CRF :: "inputs \<Rightarrow> jsnum" where
  "CRF inp =
     (let r = r_disc inp / 100; N = T_project inp
      in if r > 0 then
           js_div (js_mul (Fin r) (js_pow (Fin (1 + r)) (Fin N)))
                  (js_sub (js_pow (Fin (1 + r)) (Fin N)) (Fin 1))
         else js_div (Fin 1) (Fin N))"

definition CAPEX_annual :: "inputs \<Rightarrow> jsnum" where
  "CAPEX_annual inp = js_mul (capex_fleet_total inp) (CRF inp)"

definition avg_OPEX :: "year_record list \<Rightarrow> jsnum" where
  "avg_OPEX yrs =
     js_div (foldl (\<lambda>s yr. js_add s (yr_OPEX yr)) (Fin 0) yrs) (Fin (real (length yrs)))"

definition LCCC :: "inputs \<Rightarrow> year_record list \<Rightarrow> jsnum" where
  "LCCC inp yrs =
     (if CO2_tpy inp > 0 \<and> N_units inp > 0 then
        js_div (js_add (CAPEX_annual inp) (avg_OPEX yrs)) (Fin (N_units inp * CO2_tpy inp))
      else Fin 0)"

subsection \<open>Breakeven credit price by bisection\<close>

definition be_npv_test :: "inputs \<Rightarrow> year_record list \<Rightarrow> real \<Rightarrow> jsnum" where
  "be_npv_test inp yrs mid =
     foldl (\<lambda>npv_test yr.
        (let R_45Q_test =
               (if yr_is_45Q_eligible yr \<and> real (yr_y yr) \<le> T_45Q inp
                then Fin (yr_CO2_fleet yr * f_45Q inp * mid) else Fin 0);
             R_other = js_add (js_add (yr_R_VCM yr) (yr_R_offtake yr)) (yr_R_comply yr);
             cf = js_sub (js_sub (js_add R_45Q_test R_other) (yr_OPEX yr)) (yr_capex_year yr)
         in js_add npv_test
              (js_div cf (js_pow (Fin (1 + r_disc inp / 100)) (Fin (real (yr_y yr)))))))
       (Fin 0) yrs"

text \<open>\<open>if (npv_test < 0) b_lo = mid; else b_hi = mid\<close>\<close>

definition be_step :: "inputs \<Rightarrow> year_record list \<Rightarrow> real \<times> real \<Rightarrow> real \<times> real" where
  "be_step inp yrs b =
     (let b_lo = fst b; b_hi = snd b; mid = (b_lo + b_hi) / 2
      in if js_lt (be_npv_test inp yrs mid) (Fin 0) then (mid, b_hi) else (b_lo, mid))"

text \<open>
  \<open>for (let iter = 0; iter < 80; iter++) { ...; if (Math.abs(b_hi - b_lo) < 0.5) break; }\<close>
\<close>

function be_loop :: "inputs \<Rightarrow> year_record list \<Rightarrow> nat \<Rightarrow> real \<times> real \<Rightarrow> real \<times> real" where
  "be_loop inp yrs iter b =
     (if iter < 80 then
        (let b' = be_step inp yrs b
         in if \<bar>snd b' - fst b'\<bar> < 0.5 then b' else be_loop inp yrs (Suc iter) b')
      else b)"
  by pat_completeness auto
termination
  by (relation "measure (\<lambda>(inp, yrs, iter, b). 80 - iter)") auto

declare be_loop.simps [simp del]

definition be_bracket :: "inputs \<Rightarrow> year_record list \<Rightarrow> real \<times> real" where
  "be_bracket inp yrs = be_loop inp yrs 0 (0, 300)"

definition CR_breakeven :: "inputs \<Rightarrow> year_record list \<Rightarrow> real" where
  "CR_breakeven inp yrs = (fst (be_bracket inp yrs) + snd (be_bracket inp yrs)) / 2"

subsection \<open>The result object\<close>

text \<open>\<open>const yr1 = years[1] || years[0]\<close>: a year record is an object, hence truthy.\<close>

definition yr1 :: "year_record list \<Rightarrow> year_record option" where
  "yr1 yrs = (case js_index yrs 1 of Some r \<Rightarrow> Some r | None \<Rightarrow> js_index yrs 0)"

text \<open>\<open>yr1.CO2_fleet > 0 ? v / yr1.CO2_fleet : 0\<close>\<close>

definition per_ton :: "year_record \<Rightarrow> jsnum \<Rightarrow> jsnum" where
  "per_ton r v = (if yr_CO2_fleet r > 0 then js_div v (Fin (yr_CO2_fleet r)) else Fin 0)"

text \<open>\<open>for (const yr of years) if (yr.is_45Q_eligible) { threshold_year = yr.year; break; }\<close>\<close>

fun threshold_year :: "year_record list \<Rightarrow> real option" where
  "threshold_year [] = None"
| "threshold_year (yr # yrs) =
     (if yr_is_45Q_eligible yr then Some (yr_year yr) else threshold_year yrs)"

text \<open>
  The warnings are message strings built from the inputs; the model keeps which warnings
  are pushed, and in which order, not their wording.
\<close>

datatype warning = Never_reaches_threshold | Allocation_exceeds | Negative_NPV

definition warnings :: "inputs \<Rightarrow> year_record list \<Rightarrow> jsnum \<Rightarrow> warning list" where
  "warnings inp yrs npv =
     (if f_45Q inp > 0 \<and> \<not> list_ex yr_is_45Q_eligible yrs
      then [Never_reaches_threshold] else [])
     @ (if f_45Q inp + f_VCM inp + f_offtake inp + f_comply inp > 1.01
        then [Allocation_exceeds] else [])
     @ (if js_lt npv (Fin 0) then [Negative_NPV] else [])"

record result =
  res_CO2_tpy :: real
  res_CO2_fleet_yr1 :: real
  res_CAPEX_unit1 :: real
  res_capex_fleet_total :: jsnum
  res_unit_capex :: "jsnum list"
  res_NPV :: jsnum
  res_IRR :: "real option"
  res_payback_disc :: "nat option"
  res_payback_simple :: "nat option"
  res_LCCC :: jsnum
  res_CR_breakeven :: real
  res_R_per_ton_45Q :: jsnum
  res_R_per_ton_VCM :: jsnum
  res_R_per_ton_offtake :: jsnum
  res_R_per_ton_comply :: jsnum
  res_years :: "year_record list"
  res_warnings :: "warning list"
  res_threshold_year :: "real option"
  res_yr1_revenue :: jsnum
  res_yr1_opex :: jsnum

text \<open>
  The only statement of \<open>runFinancialModel\<close> that can throw is the first read of a property
  of \<open>yr1\<close>, a \<open>TypeError\<close> when \<open>years\<close> is empty and \<open>yr1\<close> is \<open>undefined\<close>.
\<close>

datatype js_error = TypeError

definition runFinancialModel :: "inputs \<Rightarrow> js_error + result" where
  "runFinancialModel inp =
     (let st = simulate_years inp;
          years = st_years st;
          NPV = st_cumulative_dcf st
      in case yr1 years of
           None \<Rightarrow> Inl TypeError
         | Some r \<Rightarrow>
             Inr \<lparr> res_CO2_tpy = CO2_tpy inp, res_CO2_fleet_yr1 = yr_CO2_fleet r,
                   res_CAPEX_unit1 = CAPEX_unit1 inp,
                   res_capex_fleet_total = capex_fleet_total inp,
                   res_unit_capex = unit_capex inp,
                   res_NPV = NPV, res_IRR = IRR years,
                   res_payback_disc = st_payback_disc st,
                   res_payback_simple = st_payback_simple st,
                   res_LCCC = LCCC inp years, res_CR_breakeven = CR_breakeven inp years,
                   res_R_per_ton_45Q = per_ton r (yr_R_45Q r),
                   res_R_per_ton_VCM = per_ton r (yr_R_VCM r),
                   res_R_per_ton_offtake = per_ton r (yr_R_offtake r),
                   res_R_per_ton_comply = per_ton r (yr_R_comply r),
                   res_years = years, res_warnings = warnings inp years NPV,
                   res_threshold_year = threshold_year years,
                   res_yr1_revenue = yr_R_total r, res_yr1_opex = yr_OPEX r \<rparr>)"

section \<open>Sensitivity analysis\<close>

datatype param_key =
  K_CR_45Q | K_CO2_tpd | K_f_avail | K_P_offtake | K_P_elec | K_r_disc | K_N_units
  | K_T_ads_life

definition params :: "param_key list" where
  "params = [K_CR_45Q, K_CO2_tpd, K_f_avail, K_P_offtake, K_P_elec, K_r_disc, K_N_units,
             K_T_ads_life]"

text \<open>\<open>baseInputs[p.key]\<close> and \<open>{ ...baseInputs, [p.key]: v }\<close>.\<close>

fun get_param :: "inputs \<Rightarrow> param_key \<Rightarrow> real" where
  "get_param inp K_CR_45Q = CR_45Q inp"
| "get_param inp K_CO2_tpd = CO2_tpd inp"
| "get_param inp K_f_avail = f_avail inp"
| "get_param inp K_P_offtake = P_offtake inp"
| "get_param inp K_P_elec = P_elec inp"
| "get_param inp K_r_disc = r_disc inp"
| "get_param inp K_N_units = N_units inp"
| "get_param inp K_T_ads_life = T_ads_life inp"

fun set_param :: "inputs \<Rightarrow> param_key \<Rightarrow> real \<Rightarrow> inputs" where
  "set_param inp K_CR_45Q v = inp\<lparr>CR_45Q := v\<rparr>"
| "set_param inp K_CO2_tpd v = inp\<lparr>CO2_tpd := v\<rparr>"
| "set_param inp K_f_avail v = inp\<lparr>f_avail := v\<rparr>"
| "set_param inp K_P_offtake v = inp\<lparr>P_offtake := v\<rparr>"
| "set_param inp K_P_elec v = inp\<lparr>P_elec := v\<rparr>"
| "set_param inp K_r_disc v = inp\<lparr>r_disc := v\<rparr>"
| "set_param inp K_N_units v = inp\<lparr>N_units := v\<rparr>"
| "set_param inp K_T_ads_life v = inp\<lparr>T_ads_life := v\<rparr>"

text \<open>
  An entry of the returned array. The label and the unit of a parameter are fixed display
  strings copied from the parameter table; the model keeps the key.
\<close>

record sens_entry =
  se_key :: param_key
  se_npv_lo :: jsnum
  se_npv_hi :: jsnum
  se_delta :: jsnum
  se_base_val :: real

text \<open>\<open>try { npv = runFinancialModel(inputs).NPV; } catch { npv = baseNPV; }\<close>\<close>

definition npv_or_base :: "inputs \<Rightarrow> jsnum \<Rightarrow> jsnum" where
  "npv_or_base inp baseNPV =
     (case runFinancialModel inp of Inr res \<Rightarrow> res_NPV res | Inl e \<Rightarrow> baseNPV)"

definition lo_inputs :: "inputs \<Rightarrow> param_key \<Rightarrow> inputs" where
  "lo_inputs baseInputs p = set_param baseInputs p (get_param baseInputs p * 0.8)"

definition hi_inputs :: "inputs \<Rightarrow> param_key \<Rightarrow> inputs" where
  "hi_inputs baseInputs p = set_param baseInputs p (get_param baseInputs p * 1.2)"

definition sens_of :: "inputs \<Rightarrow> jsnum \<Rightarrow> param_key \<Rightarrow> sens_entry" where
  "sens_of baseInputs baseNPV p =
     (let npv_lo = npv_or_base (lo_inputs baseInputs p) baseNPV;
          npv_hi = npv_or_base (hi_inputs baseInputs p) baseNPV
      in \<lparr> se_key = p, se_npv_lo = npv_lo, se_npv_hi = npv_hi,
           se_delta = js_abs (js_sub npv_hi npv_lo),
           se_base_val = get_param baseInputs p \<rparr>)"

text \<open>
  \<open>Array.prototype.sort\<close> with a comparator is a stable sort; a comparator result of NaN
  counts as 0. It is modelled as the stable insertion sort that places an element before
  the first one the comparator puts strictly after it. Every stable sort gives the same
  array when the comparator is a consistent order. When it is not, which a NaN delta
  causes, ECMAScript leaves the order to the implementation, and the order of the model
  need not be the engine's: the properties proved of such a result below hold of every
  rearrangement of the entries.
\<close>

fun js_sort_insert :: "('a \<Rightarrow> 'a \<Rightarrow> jsnum) \<Rightarrow> 'a \<Rightarrow> 'a list \<Rightarrow> 'a list" where
  "js_sort_insert cmp x [] = [x]"
| "js_sort_insert cmp x (z # zs) =
     (if js_gt (cmp z x) (Fin 0) then x # z # zs else z # js_sort_insert cmp x zs)"

definition js_sort :: "('a \<Rightarrow> 'a \<Rightarrow> jsnum) \<Rightarrow> 'a list \<Rightarrow> 'a list" where
  "js_sort cmp xs = foldl (\<lambda>sorted_part x. js_sort_insert cmp x sorted_part) [] xs"

text \<open>The comparator \<open>(a, b) => b.delta - a.delta\<close>.\<close>

definition by_delta_desc :: "sens_entry \<Rightarrow> sens_entry \<Rightarrow> jsnum" where
  "by_delta_desc a b = js_sub (se_delta b) (se_delta a)"

definition runSensitivity :: "inputs \<Rightarrow> jsnum \<Rightarrow> sens_entry list" where
  "runSensitivity baseInputs baseNPV =
     js_sort by_delta_desc (map (sens_of baseInputs baseNPV) params)"

declare js_pow.simps [simp del]

section \<open>The earlier variant of the revenue block\<close>

text \<open>
  The second source file is the same engine without the eligibility threshold and without
  the greenhouse pathway: the 45Q stream has no eligibility gate and no greenhouse split,
  and the offtake stream is a single product. The other streams are unchanged.
\<close>

definition R_45Q_part_000 :: "inputs \<Rightarrow> nat \<Rightarrow> jsnum" where
  "R_45Q_part_000 inp y =
     (if f_45Q inp > 0 \<and> real y \<le> T_45Q inp
      then js_mul (Fin (CO2_fleet inp y * f_45Q inp)) (cr inp y) else Fin 0)"

definition R_offtake_part_000 :: "inputs \<Rightarrow> nat \<Rightarrow> jsnum" where
  "R_offtake_part_000 inp y = js_mul (Fin (CO2_fleet inp y * f_offtake inp)) (P_offtake_y inp y)"

definition R_total_part_000 :: "inputs \<Rightarrow> nat \<Rightarrow> jsnum" where
  "R_total_part_000 inp y =
     js_add (js_add (js_add (R_45Q_part_000 inp y) (R_VCM inp y)) (R_offtake_part_000 inp y))
       (R_comply inp y)"

section \<open>Vocabulary of the properties\<close>

text \<open>
  The number of iterations of the year loop: \<open>y\<close> runs over the naturals with
  \<open>y \<le> T_project\<close>.
\<close>

definition num_years :: "inputs \<Rightarrow> nat" where
  "num_years inp = nat (\<lfloor>T_project inp\<rfloor> + 1)"

text \<open>A year record holds the values the per-year functions give at its offset.\<close>

definition record_of_year :: "inputs \<Rightarrow> year_record \<Rightarrow> bool" where
  "record_of_year inp r =
     (let y = yr_y r
      in yr_year r = Y_start inp + real y \<and> yr_N_deployed r = N_deployed inp y
         \<and> yr_CO2_fleet r = CO2_fleet inp y \<and> yr_is_45Q_eligible r = is_45Q_eligible inp y
         \<and> yr_R_45Q r = R_45Q inp y \<and> yr_R_VCM r = R_VCM inp y
         \<and> yr_R_offtake r = R_offtake inp y \<and> yr_R_comply r = R_comply inp y
         \<and> yr_R_total r = R_total inp y \<and> yr_OPEX r = OPEX inp y
         \<and> yr_capex_year r = capex_year inp y \<and> yr_CF r = CF inp y \<and> yr_DCF r = DCF inp y
         \<and> yr_R_per_ton r =
             (if CO2_fleet inp y > 0 then js_div (R_total inp y) (Fin (CO2_fleet inp y)) else Fin 0)
         \<and> yr_OPEX_per_ton r =
             (if CO2_fleet inp y > 0 then js_div (OPEX inp y) (Fin (CO2_fleet inp y)) else Fin 0))"

text \<open>Descending order of the deltas, in the order of JavaScript numbers.\<close>

definition delta_ge :: "sens_entry \<Rightarrow> sens_entry \<Rightarrow> bool" where
  "delta_ge a b = js_ge (se_delta a) (se_delta b)"

definition sorted_by_delta_desc :: "sens_entry list \<Rightarrow> bool" where
  "sorted_by_delta_desc xs = sorted_wrt delta_ge xs"

text \<open>
  The arithmetic of the model never overflows. A property that would fail in the program
  once an intermediate value leaves the range of finite doubles is therefore stated under
  the hypothesis that the intermediate values it depends on stay in that range:
  \<open>max_double\<close> is the largest finite double, \<open>(2^53 - 1) * 2^971\<close>.
\<close>

definition max_double :: real where
  "max_double = (2 ^ 53 - 1) * 2 ^ 971"

definition in_double_range :: "real \<Rightarrow> bool" where
  "in_double_range x = (\<bar>x\<bar> \<le> max_double)"

text \<open>
  The intermediate values of the revenue block of year \<open>y\<close> that are computed whatever
  the allocation fractions are: the deployment product, the fleet output and the
  escalation factors and escalated prices of the market, offtake, greenhouse and
  compliance streams.
\<close>

definition revenue_in_double_range :: "inputs \<Rightarrow> nat \<Rightarrow> bool" where
  "revenue_in_double_range inp y =
     (in_double_range (real y * units_per_year inp)
      \<and> in_double_range (CO2_tpd inp * 365)
      \<and> in_double_range (CO2_tpy inp)
      \<and> in_double_range (CO2_fleet inp y)
      \<and> in_double_range ((1 + r_VCM inp / 100) ^ y)
      \<and> in_double_range (P_VCM inp * (1 + r_VCM inp / 100) ^ y)
      \<and> in_double_range ((1 + r_offtake inp / 100) ^ y)
      \<and> in_double_range (P_offtake inp * (1 + r_offtake inp / 100) ^ y)
      \<and> in_double_range (P_greenhouse inp * (1 + r_offtake inp / 100) ^ y)
      \<and> in_double_range ((1 + r_rev inp / 100) ^ y))"

text \<open>The escalation factor of the credit rate in year \<open>y\<close>, and the escalated rate.\<close>

definition escalation_in_double_range :: "inputs \<Rightarrow> nat \<Rightarrow> bool" where
  "escalation_in_double_range inp y =
     (in_double_range ((1 + r_CPI inp / 100) powr (Y_start inp + real y - Y_45Q_infl inp))
      \<and> in_double_range
           (CR_45Q inp * (1 + r_CPI inp / 100) powr (Y_start inp + real y - Y_45Q_infl inp)))"

text \<open>
  A concrete scenario, used to evaluate the engine: the application's default parameters
  with a two-year horizon, a fleet of two units deployed one per year, a learning rate
  of 1 and an eligibility threshold of 1000 t/yr.
\<close>

definition example_inputs :: inputs where
  "example_inputs =
     \<lparr> CO2_tpd = 3.5, f_avail = 0.9, E_spec = 1200, W_total = 65,
       CR_45Q = 85, f_45Q = 0.5, T_45Q = 12, Y_45Q_infl = 2027, r_CPI = 2.5,
       Q_thresh_45Q = 1000,
       P_VCM = 40, f_VCM = 0, r_VCM = 3,
       P_offtake = 70, f_offtake = 0.5, r_offtake = 2,
       P_comply = 0, f_comply = 0,
       gh_45Q_eligible = False, f_greenhouse = 0, P_greenhouse = 70,
       C_vessels = 60000, C_adsorbent = 20000, C_HX = 20000, C_blower = 15000,
       C_valves = 35000, C_compressor = 5000, C_pretreat = 15000, C_controls = 25000,
       C_electrical = 12000, C_piping = 18000, C_container = 12000,
       f_install = 0.2, f_engineering = 0.15,
       P_elec = 0.08, T_ads_life = 7, C_valve_maint = 5000, C_cal = 5000,
       f_insurance = 1.5, C_monitor = 3000, f_maint = 3, r_OPEX = 2,
       r_disc = 10, T_project = 2, Y_start = 2026, r_rev = 2,
       N_units = 2, LR = 1, units_per_year = 1 \<rparr>"

section \<open>Basic facts\<close>

lemma year_guard: "real y \<le> T_project inp \<longleftrightarrow> y < num_years inp"
  unfolding num_years_def by linarith

lemma year_loop_fold:
  "year_loop inp y st = foldl (\<lambda>s k. year_step inp k s) st [y..<num_years inp]"
proof (induction inp y st rule: year_loop.induct)
  case (1 inp y st)
  show ?case
  proof (cases "real y \<le> T_project inp")
    case True
    then have lt: "y < num_years inp" by (simp add: year_guard)
    have "year_loop inp y st = year_loop inp (Suc y) (year_step inp y st)"
      using True by (simp add: year_loop.simps [of inp y st])
    also have "\<dots> = foldl (\<lambda>s k. year_step inp k s) (year_step inp y st) [Suc y..<num_years inp]"
      using "1.IH" True by simp
    also have "\<dots> = foldl (\<lambda>s k. year_step inp k s) st [y..<num_years inp]"
      using lt by (simp add: upt_conv_Cons)
    finally show ?thesis .
  next
    case False
    then have "\<not> y < num_years inp" by (simp add: year_guard)
    with False show ?thesis by (simp add: year_loop.simps [of inp y st])
  qed
qed

lemma fold_cumulative_dcf:
  "st_cumulative_dcf (foldl (\<lambda>s k. year_step inp k s) st ys)
     = foldl js_add (st_cumulative_dcf st) (map (DCF inp) ys)"
  by (induction ys arbitrary: st) (simp_all add: year_step_def Let_def)

lemma fold_years_y:
  "map yr_y (st_years (foldl (\<lambda>s k. year_step inp k s) st ys)) = map yr_y (st_years st) @ ys"
  by (induction ys arbitrary: st) (simp_all add: year_step_def Let_def)

lemma fold_last_cumulative:
  "(st_years st \<noteq> [] \<longrightarrow> yr_cumulative_dcf (last (st_years st)) = st_cumulative_dcf st)
   \<Longrightarrow> st_years (foldl (\<lambda>s k. year_step inp k s) st ys) \<noteq> []
   \<Longrightarrow> yr_cumulative_dcf (last (st_years (foldl (\<lambda>s k. year_step inp k s) st ys)))
       = st_cumulative_dcf (foldl (\<lambda>s k. year_step inp k s) st ys)"
  by (induction ys arbitrary: st) (simp_all add: year_step_def Let_def)

lemma js_pow_nat: "js_pow (Fin b) (Fin (real n)) = Fin (b ^ n)"
  by (cases "n = 0") (auto simp: js_pow.simps is_integral_def)

declare js_pow_nat [simp]

lemma fold_records:
  "list_all (record_of_year inp) (st_years st)
   \<Longrightarrow> list_all (record_of_year inp) (st_years (foldl (\<lambda>s k. year_step inp k s) st ys))"
  by (induction ys arbitrary: st) (simp_all add: year_step_def Let_def record_of_year_def)

lemma years_y: "map yr_y (st_years (simulate_years inp)) = [0..<num_years inp]"
  by (simp add: simulate_years_def year_loop_fold fold_years_y sim_init_def)

lemma years_length: "length (st_years (simulate_years inp)) = num_years inp"
  using years_y [of inp] by (metis length_map length_upt minus_nat.diff_0)

lemma years_records: "list_all (record_of_year inp) (st_years (simulate_years inp))"
  by (simp add: simulate_years_def year_loop_fold fold_records sim_init_def)

lemma years_nth:
  assumes "i < num_years inp"
  shows "yr_y (st_years (simulate_years inp) ! i) = i"
    and "record_of_year inp (st_years (simulate_years inp) ! i)"
proof -
  have "map yr_y (st_years (simulate_years inp)) ! i = [0..<num_years inp] ! i"
    by (simp add: years_y)
  then show "yr_y (st_years (simulate_years inp) ! i) = i"
    using assms by (simp add: years_length)
  show "record_of_year inp (st_years (simulate_years inp) ! i)"
    using years_records [of inp] assms by (simp add: list_all_length years_length)
qed

lemma npv_cumulative:
  "st_cumulative_dcf (simulate_years inp) = foldl js_add (Fin 0) (map (DCF inp) [0..<num_years inp])"
  by (simp add: simulate_years_def year_loop_fold fold_cumulative_dcf sim_init_def)

lemma years_last:
  "st_years (simulate_years inp) \<noteq> [] \<Longrightarrow>
     yr_cumulative_dcf (last (st_years (simulate_years inp))) = st_cumulative_dcf (simulate_years inp)"
  unfolding simulate_years_def year_loop_fold
  by (rule fold_last_cumulative) (simp_all add: sim_init_def)

lemma num_years_pos: "0 < num_years inp \<longleftrightarrow> 0 \<le> T_project inp"
  unfolding num_years_def by linarith

lemma num_years_gt1: "1 < num_years inp \<longleftrightarrow> 1 \<le> T_project inp"
  unfolding num_years_def by linarith

lemma js_index_0 [simp]: "js_index xs 0 = (if xs = [] then None else Some (xs ! 0))"
  by (simp add: js_index_def is_integral_def)

lemma js_index_1 [simp]: "js_index xs 1 = (if 1 < length xs then Some (xs ! 1) else None)"
  by (simp add: js_index_def is_integral_def)

lemma yr1_cases:
  "yr1 yrs = (if 1 < length yrs then Some (yrs ! 1) else if yrs = [] then None else Some (yrs ! 0))"
  by (simp add: yr1_def)

lemma runFinancialModel_returns:
  "(\<exists>res. runFinancialModel inp = Inr res) \<longleftrightarrow> 0 \<le> T_project inp"
proof -
  have "st_years (simulate_years inp) = [] \<longleftrightarrow> \<not> 0 \<le> T_project inp"
    using years_length [of inp] num_years_pos [of inp] by (metis length_greater_0_conv)
  then show ?thesis
    by (auto simp: runFinancialModel_def Let_def yr1_cases split: option.splits if_splits)
qed

lemma result_fields:
  assumes "runFinancialModel inp = Inr res"
  shows "res_years res = st_years (simulate_years inp)"
    and "res_NPV res = st_cumulative_dcf (simulate_years inp)"
    and "res_CR_breakeven res = CR_breakeven inp (res_years res)"
    and "res_IRR res = IRR (res_years res)"
    and "res_unit_capex res = unit_capex inp"
    and "res_CAPEX_unit1 res = CAPEX_unit1 inp"
  using assms by (auto simp: runFinancialModel_def Let_def split: option.splits)

text \<open>Unfolding these equations evaluates the per-year quantities at a concrete input.\<close>

lemmas year_eval =
  R_total_def R_45Q_def R_VCM_def R_offtake_def R_comply_def R_offtake_gh_def
  R_offtake_non_gh_def P_gh_y_def P_offtake_y_def P_VCM_y_def escalation_rev_def CO2_fleet_def
  CO2_tpy_def N_deployed_def N_prev_def is_45Q_eligible_def cr_def OPEX_def opex_escalation_def
  C_elec_def C_ads_replace_def C_fixed_def C_insure_def C_gen_maint_def CF_def DCF_def
  discount_factor_def capex_year_def capex_cum_def unit_capex_def capex_fleet_total_def
  lr_exp_def CAPEX_unit1_def C_equipment_def capex_loop.simps capex_year_loop.simps
  capex_cum_loop.simps js_index_def is_integral_def js_sub_def js_gt_def js_ge_def Let_def
  js_pow.simps

lemma returns_projr:
  "0 \<le> T_project inp \<Longrightarrow> runFinancialModel inp = Inr (projr (runFinancialModel inp))"
  using runFinancialModel_returns [of inp] by (metis sum.sel(2))

lemma result_record:
  assumes "0 \<le> T_project inp" and "i < num_years inp"
  shows "yr_y (res_years (projr (runFinancialModel inp)) ! i) = i"
    and "record_of_year inp (res_years (projr (runFinancialModel inp)) ! i)"
  using years_nth [OF assms(2)] result_fields(1) [OF returns_projr [OF assms(1)]] by simp_all

lemma result_record_at:
  assumes "0 \<le> T_project inp" and "i < num_years inp"
  shows "yr_y (res_years (projr (runFinancialModel inp)) ! i) = i"
    and "yr_CO2_fleet (res_years (projr (runFinancialModel inp)) ! i) = CO2_fleet inp i"
    and "yr_R_total (res_years (projr (runFinancialModel inp)) ! i) = R_total inp i"
    and "yr_OPEX (res_years (projr (runFinancialModel inp)) ! i) = OPEX inp i"
    and "yr_CF (res_years (projr (runFinancialModel inp)) ! i) = CF inp i"
    and "yr_R_per_ton (res_years (projr (runFinancialModel inp)) ! i) =
           (if CO2_fleet inp i > 0 then js_div (R_total inp i) (Fin (CO2_fleet inp i)) else Fin 0)"
    and "yr_OPEX_per_ton (res_years (projr (runFinancialModel inp)) ! i) =
           (if CO2_fleet inp i > 0 then js_div (OPEX inp i) (Fin (CO2_fleet inp i)) else Fin 0)"
    and "i < length (res_years (projr (runFinancialModel inp)))"
  using result_record [OF assms] assms(2) result_fields(1) [OF returns_projr [OF assms(1)]]
  by (simp_all add: record_of_year_def Let_def years_length)

lemma in_double_range_small: "\<bar>x\<bar> \<le> 2 ^ 64 \<Longrightarrow> in_double_range x"
proof -
  have "(2::real) ^ 64 \<le> max_double"
    by (simp add: max_double_def)
  then show "\<bar>x\<bar> \<le> 2 ^ 64 \<Longrightarrow> in_double_range x"
    by (simp add: in_double_range_def)
qed

text \<open>
  Claim C1. Whenever \<open>runFinancialModel\<close> returns, the year sequence is not empty, the
  returned NPV is the cumulative discounted cash flow stored in its last record, and it
  is the sum, accumulated from year 0 upwards, of \<open>CF(y) / (1 + r_disc/100)^y\<close> over the
  simulated years \<open>y = 0, \<dots>, \<lfloor>T_project\<rfloor>\<close>.
\<close>
theorem npv_is_final_cumulative_dcf:
  assumes "runFinancialModel inp = Inr res"
  shows "res_years res \<noteq> []
       \<and> res_NPV res = yr_cumulative_dcf (last (res_years res))
       \<and> res_NPV res =
           foldl js_add (Fin 0)
             (map (\<lambda>y. js_div (CF inp y) (js_pow (Fin (1 + r_disc inp / 100)) (Fin (real y))))
                  [0..<num_years inp])"
proof -
  have "0 \<le> T_project inp"
    using assms runFinancialModel_returns by blast
  then have ne: "st_years (simulate_years inp) \<noteq> []"
    using years_length [of inp] num_years_pos [of inp] by (metis length_greater_0_conv)
  have dcf: "DCF inp = (\<lambda>y. js_div (CF inp y) (js_pow (Fin (1 + r_disc inp / 100)) (Fin (real y))))"
    by (rule ext) (simp only: DCF_def discount_factor_def)
  show ?thesis
    using ne years_last [OF ne] npv_cumulative [of inp]
    by (simp only: result_fields [OF assms] dcf) simp
qed

theorem npv_is_final_cumulative_dcf_witness:
  "runFinancialModel example_inputs = Inr (projr (runFinancialModel example_inputs))
   \<and> res_years (projr (runFinancialModel example_inputs)) \<noteq> []
   \<and> res_NPV (projr (runFinancialModel example_inputs))
       = yr_cumulative_dcf (last (res_years (projr (runFinancialModel example_inputs))))
   \<and> res_NPV (projr (runFinancialModel example_inputs)) = Fin (- (225372564069 / 423500))"
proof -
  have T: "0 \<le> T_project example_inputs" by (simp add: example_inputs_def)
  note r = returns_projr [OF T]
  have n: "[0..<num_years example_inputs] = [0, 1, 2]"
    by (simp add: num_years_def example_inputs_def upt_rec)
  have v: "foldl js_add (Fin 0)
             (map (\<lambda>y. js_div (CF example_inputs y)
                    (js_pow (Fin (1 + r_disc example_inputs / 100)) (Fin (real y)))) [0, 1, 2])
           = Fin (- (225372564069 / 423500))"
    by (simp add: example_inputs_def year_eval power2_eq_square)
  from npv_is_final_cumulative_dcf [OF r]
  have a: "res_years (projr (runFinancialModel example_inputs)) \<noteq> []"
    and b: "res_NPV (projr (runFinancialModel example_inputs))
       = yr_cumulative_dcf (last (res_years (projr (runFinancialModel example_inputs))))"
    and c: "res_NPV (projr (runFinancialModel example_inputs)) =
           foldl js_add (Fin 0)
             (map (\<lambda>y. js_div (CF example_inputs y)
                    (js_pow (Fin (1 + r_disc example_inputs / 100)) (Fin (real y))))
                  [0..<num_years example_inputs])"
    by blast+
  have "res_NPV (projr (runFinancialModel example_inputs)) = Fin (- (225372564069 / 423500))"
    using c by (simp only: n v)
  with r a b show ?thesis by blast
qed

text \<open>
  Claim C4. For a fleet size of at least 1 and a non-negative deploy rate, the deployed
  unit count \<open>N(y) = min(N_units, floor(y * units_per_year) + 1)\<close> is nondecreasing in
  \<open>y\<close>, is at least 1 in year 0 and never exceeds \<open>N_units\<close>; it is the count stored in
  the record of year \<open>y\<close>.
\<close>
theorem deployment_count_monotone_bounded:
  assumes "1 \<le> N_units inp" and "0 \<le> units_per_year inp"
  shows "N_deployed inp y = min (N_units inp) (of_int \<lfloor>real y * units_per_year inp\<rfloor> + 1)
       \<and> (y \<le> y' \<longrightarrow> N_deployed inp y \<le> N_deployed inp y')
       \<and> 1 \<le> N_deployed inp 0
       \<and> N_deployed inp y \<le> N_units inp
       \<and> (runFinancialModel inp = Inr res \<and> i < length (res_years res)
            \<longrightarrow> yr_N_deployed (res_years res ! i) = N_deployed inp i)"
proof -
  have mono: "N_deployed inp y \<le> N_deployed inp y'" if "y \<le> y'"
  proof -
    have "real y * units_per_year inp \<le> real y' * units_per_year inp"
      using that assms(2) by (simp add: mult_right_mono)
    then have "\<lfloor>real y * units_per_year inp\<rfloor> \<le> \<lfloor>real y' * units_per_year inp\<rfloor>"
      by (rule floor_mono)
    then show ?thesis
      unfolding N_deployed_def by (simp add: min.coboundedI2)
  qed
  have rec: "yr_N_deployed (res_years res ! i) = N_deployed inp i"
    if "runFinancialModel inp = Inr res" "i < length (res_years res)"
  proof -
    have i: "i < num_years inp"
      using that by (simp add: result_fields years_length)
    show ?thesis
      using years_nth [OF i] by (simp add: result_fields(1) [OF that(1)] record_of_year_def Let_def)
  qed
  show ?thesis
    using mono rec assms(1) by (auto simp: N_deployed_def)
qed

theorem deployment_count_monotone_bounded_witness:
  "1 \<le> N_units example_inputs \<and> 0 \<le> units_per_year example_inputs
   \<and> N_deployed example_inputs 0 = 1 \<and> N_deployed example_inputs 1 = 2
   \<and> N_deployed example_inputs 0 \<le> N_deployed example_inputs 1
   \<and> N_deployed example_inputs 1 \<le> N_units example_inputs
   \<and> yr_N_deployed (res_years (projr (runFinancialModel example_inputs)) ! 1) = 2"
proof -
  have h: "1 \<le> N_units example_inputs" "0 \<le> units_per_year example_inputs"
    by (simp_all add: example_inputs_def)
  have T: "0 \<le> T_project example_inputs" by (simp add: example_inputs_def)
  have n: "1 < num_years example_inputs" by (simp add: num_years_def example_inputs_def)
  have v: "N_deployed example_inputs 0 = 1" "N_deployed example_inputs 1 = 2"
    by (simp_all add: N_deployed_def example_inputs_def)
  have le: "(0::nat) \<le> 1" by simp
  from deployment_count_monotone_bounded [OF h, of 0 1] le
  have m: "N_deployed example_inputs 0 \<le> N_deployed example_inputs 1" by blast
  from deployment_count_monotone_bounded
         [OF h, of 1 1 "projr (runFinancialModel example_inputs)" 1]
       returns_projr [OF T] result_record_at(8) [OF T n]
  have u: "N_deployed example_inputs 1 \<le> N_units example_inputs"
    and rc: "yr_N_deployed (res_years (projr (runFinancialModel example_inputs)) ! 1)
             = N_deployed example_inputs 1"
    by blast+
  from h v m u rc show ?thesis by simp
qed

lemma js_pow_ge_one:
  assumes "1 \<le> b" and "0 \<le> e"
  shows "\<exists>p. js_pow (Fin b) (Fin e) = Fin p \<and> 1 \<le> p \<and> p = b powr e"
proof (cases "e = 0")
  case True
  then show ?thesis using assms by (simp add: js_pow.simps)
next
  case False
  with assms have b0: "b \<noteq> 0" "0 < b" "0 < e" by auto
  show ?thesis
  proof (cases "is_integral e")
    case True
    then have e: "real (nat \<lfloor>e\<rfloor>) = e"
      using assms(2) by (simp add: is_integral_def)
    have "b powr e = b powr real (nat \<lfloor>e\<rfloor>)" by (simp only: e)
    also have "\<dots> = b ^ nat \<lfloor>e\<rfloor>" using b0 by (simp only: powr_realpow)
    finally have "b ^ nat \<lfloor>e\<rfloor> = b powr e" by simp
    moreover have "1 \<le> b ^ nat \<lfloor>e\<rfloor>" using assms(1) by simp
    ultimately show ?thesis using True False b0 assms by (simp add: js_pow.simps)
  next
    case F: False
    have "1 \<le> b powr e" using assms by (simp add: ge_one_powr_ge_zero)
    then show ?thesis using F False b0 by (simp add: js_pow.simps)
  qed
qed

text \<open>
  Claim C6. The effective credit rate \<open>cr\<close> is the base rate \<open>CR_45Q\<close> while the calendar
  year is before \<open>Y_45Q_infl\<close>, and \<open>CR_45Q * Math.pow(1 + r_CPI/100, year - Y_45Q_infl)\<close>
  from that year on; for \<open>r_CPI \<ge> 0\<close>, and as long as the factor and the escalated rate
  stay in the range of finite doubles, the power is the real power \<open>(1 + r_CPI/100)\<close> to
  the \<open>year - Y_45Q_infl\<close>. A credit rate is not negative. For \<open>r_CPI \<ge> 0\<close> and such a base
  rate the effective rate is never below the base rate, in any year, and under the same
  range condition it is at least the base rate as a number. In a year in which the stream
  is active, the 45Q revenue is the credited volume times \<open>cr\<close>.
\<close>

theorem credit_rate_escalation:
  "(Y_start inp + real y < Y_45Q_infl inp \<longrightarrow> cr inp y = Fin (CR_45Q inp))
   \<and> (Y_45Q_infl inp \<le> Y_start inp + real y \<longrightarrow>
        cr inp y = js_mul (Fin (CR_45Q inp))
                     (js_pow (Fin (1 + r_CPI inp / 100))
                             (Fin (Y_start inp + real y - Y_45Q_infl inp))))
   \<and> (0 \<le> r_CPI inp \<and> Y_45Q_infl inp \<le> Y_start inp + real y
        \<and> escalation_in_double_range inp y \<longrightarrow>
        cr inp y = Fin (CR_45Q inp * (1 + r_CPI inp / 100) powr (Y_start inp + real y - Y_45Q_infl inp)))
   \<and> (0 \<le> r_CPI inp \<and> 0 \<le> CR_45Q inp \<longrightarrow> \<not> js_lt (cr inp y) (Fin (CR_45Q inp)))
   \<and> (0 \<le> r_CPI inp \<and> 0 \<le> CR_45Q inp
        \<and> (Y_45Q_infl inp \<le> Y_start inp + real y \<longrightarrow> escalation_in_double_range inp y) \<longrightarrow>
        js_ge (cr inp y) (Fin (CR_45Q inp)))
   \<and> (f_45Q inp > 0 \<and> real y \<le> T_45Q inp \<and> is_45Q_eligible inp y \<longrightarrow>
        R_45Q inp y =
          js_mul (Fin (if gh_45Q_eligible inp
                       then CO2_fleet inp y * f_45Q inp * (1 - f_greenhouse inp)
                            + CO2_fleet inp y * f_greenhouse inp
                       else CO2_fleet inp y * f_45Q inp * (1 - f_greenhouse inp)))
                 (cr inp y))"
proof -
  have esc: "\<exists>p. js_pow (Fin (1 + r_CPI inp / 100)) (Fin (Y_start inp + real y - Y_45Q_infl inp)) = Fin p
              \<and> 1 \<le> p \<and> p = (1 + r_CPI inp / 100) powr (Y_start inp + real y - Y_45Q_infl inp)"
    if "0 \<le> r_CPI inp" "Y_45Q_infl inp \<le> Y_start inp + real y"
    using that by (intro js_pow_ge_one) auto
  have ge: "js_ge (cr inp y) (Fin (CR_45Q inp))" if h: "0 \<le> r_CPI inp" "0 \<le> CR_45Q inp"
  proof (cases "Y_45Q_infl inp \<le> Y_start inp + real y")
    case True
    from esc [OF h(1) True] obtain p where
      p: "js_pow (Fin (1 + r_CPI inp / 100)) (Fin (Y_start inp + real y - Y_45Q_infl inp)) = Fin p"
         "1 \<le> p" by blast
    have "CR_45Q inp * 1 \<le> CR_45Q inp * p"
      using h(2) p(2) by (rule mult_left_mono [OF _ _, rotated])
    then show ?thesis using True p by (simp add: cr_def Let_def js_ge_def)
  next
    case False
    then show ?thesis by (simp add: cr_def Let_def js_ge_def)
  qed
  have nlt: "\<not> js_lt (cr inp y) (Fin (CR_45Q inp))" if h: "0 \<le> r_CPI inp" "0 \<le> CR_45Q inp"
    using ge [OF h] by (simp add: js_ge_def)
  show ?thesis
    using esc ge nlt by (auto simp: cr_def Let_def R_45Q_def)
qed

theorem credit_rate_escalation_witness:
  "0 \<le> r_CPI example_inputs \<and> 0 \<le> CR_45Q example_inputs
   \<and> Y_start example_inputs + real 0 < Y_45Q_infl example_inputs
   \<and> cr example_inputs 0 = Fin (CR_45Q example_inputs)
   \<and> Y_45Q_infl example_inputs \<le> Y_start example_inputs + real 2
   \<and> escalation_in_double_range example_inputs 2
   \<and> cr example_inputs 2 = Fin (697 / 8)
   \<and> cr example_inputs 2
       = Fin (CR_45Q example_inputs * (1 + r_CPI example_inputs / 100)
                powr (Y_start example_inputs + real 2 - Y_45Q_infl example_inputs))
   \<and> \<not> js_lt (cr example_inputs 2) (Fin (CR_45Q example_inputs))
   \<and> js_ge (cr example_inputs 2) (Fin (CR_45Q example_inputs))
   \<and> 0 < f_45Q example_inputs \<and> real 2 \<le> T_45Q example_inputs
   \<and> is_45Q_eligible example_inputs 2
   \<and> R_45Q example_inputs 2 = Fin (3205503 / 32)"
proof -
  have h: "0 \<le> r_CPI example_inputs" "0 \<le> CR_45Q example_inputs"
    "Y_start example_inputs + real 0 < Y_45Q_infl example_inputs"
    "Y_45Q_infl example_inputs \<le> Y_start example_inputs + real 2"
    by (simp_all add: example_inputs_def)
  have rng: "escalation_in_double_range example_inputs 2"
    unfolding escalation_in_double_range_def
    by (intro conjI in_double_range_small) (simp_all add: example_inputs_def)
  have act: "0 < f_45Q example_inputs" "real 2 \<le> T_45Q example_inputs"
    "is_45Q_eligible example_inputs 2"
    by (simp_all add: example_inputs_def is_45Q_eligible_def CO2_fleet_def CO2_tpy_def
        N_deployed_def)
  have v: "cr example_inputs 2 = Fin (697 / 8)"
    by (simp add: example_inputs_def year_eval)
  have vol: "(if gh_45Q_eligible example_inputs
              then CO2_fleet example_inputs 2 * f_45Q example_inputs
                     * (1 - f_greenhouse example_inputs)
                   + CO2_fleet example_inputs 2 * f_greenhouse example_inputs
              else CO2_fleet example_inputs 2 * f_45Q example_inputs
                     * (1 - f_greenhouse example_inputs)) = 4599 / 4"
    by (simp add: example_inputs_def CO2_fleet_def CO2_tpy_def N_deployed_def)
  from credit_rate_escalation [of example_inputs 0] h(3)
  have c0: "cr example_inputs 0 = Fin (CR_45Q example_inputs)" by blast
  from credit_rate_escalation [of example_inputs 2] h(1,2,4) rng act
  have pw: "cr example_inputs 2
       = Fin (CR_45Q example_inputs * (1 + r_CPI example_inputs / 100)
                powr (Y_start example_inputs + real 2 - Y_45Q_infl example_inputs))"
    and nl: "\<not> js_lt (cr example_inputs 2) (Fin (CR_45Q example_inputs))"
    and ge: "js_ge (cr example_inputs 2) (Fin (CR_45Q example_inputs))"
    and rev: "R_45Q example_inputs 2 =
          js_mul (Fin (if gh_45Q_eligible example_inputs
                       then CO2_fleet example_inputs 2 * f_45Q example_inputs
                              * (1 - f_greenhouse example_inputs)
                            + CO2_fleet example_inputs 2 * f_greenhouse example_inputs
                       else CO2_fleet example_inputs 2 * f_45Q example_inputs
                              * (1 - f_greenhouse example_inputs)))
                 (cr example_inputs 2)"
    by blast+
  have "R_45Q example_inputs 2 = Fin (3205503 / 32)"
    by (simp only: rev vol v) simp
  with h rng act v c0 pw nl ge show ?thesis by blast
qed

lemma in_years:
  assumes "runFinancialModel inp = Inr res" and "r \<in> set (res_years res)"
  shows "record_of_year inp r \<and> yr_y r < num_years inp"
proof -
  from assms obtain i where i: "i < num_years inp" "r = st_years (simulate_years inp) ! i"
    by (auto simp: result_fields(1) in_set_conv_nth years_length)
  then show ?thesis using years_nth [OF i(1)] by simp
qed

text \<open>
  Claim C2 (amended). When the four allocation fractions \<open>f_45Q\<close>, \<open>f_VCM\<close>, \<open>f_offtake\<close>
  and \<open>f_comply\<close> are 0, the greenhouse fraction \<open>f_greenhouse\<close> is 0 as well, and no
  intermediate value of the revenue block of the year leaves the range of finite doubles,
  the total revenue of the year is 0, and so is \<open>R_total\<close> in the year's record. In the
  variant of the engine without the greenhouse pathway the four fractions and the range
  condition suffice. (With a positive greenhouse fraction the greenhouse offtake still
  earns revenue: see the counterexample. Beyond the range an escalated price is
  \<open>Infinity\<close>, and 0 times it is NaN.)
\<close>

theorem zero_fractions_zero_revenue:
  assumes "f_45Q inp = 0" and "f_VCM inp = 0" and "f_offtake inp = 0" and "f_comply inp = 0"
    and "revenue_in_double_range inp y"
  shows "(f_greenhouse inp = 0 \<longrightarrow> R_total inp y = Fin 0)
       \<and> (f_greenhouse inp = 0 \<and> runFinancialModel inp = Inr res \<and> y < length (res_years res)
            \<longrightarrow> yr_y (res_years res ! y) = y \<and> yr_R_total (res_years res ! y) = Fin 0)
       \<and> R_total_part_000 inp y = Fin 0"
proof -
  have a: "R_total inp y = Fin 0" if "f_greenhouse inp = 0"
    using assms(1-4) that
    by (simp add: R_total_def R_45Q_def R_VCM_def P_VCM_y_def R_offtake_def R_offtake_non_gh_def
        R_offtake_gh_def P_offtake_y_def P_gh_y_def R_comply_def escalation_rev_def)
  have b: "yr_y (res_years res ! y) = y \<and> yr_R_total (res_years res ! y) = Fin 0"
    if g: "f_greenhouse inp = 0" and r: "runFinancialModel inp = Inr res"
      and l: "y < length (res_years res)"
  proof -
    have i: "y < num_years inp"
      using l by (simp add: result_fields(1) [OF r] years_length)
    show ?thesis
      using years_nth [OF i] a [OF g]
      by (simp add: result_fields(1) [OF r] record_of_year_def Let_def)
  qed
  have c: "R_total_part_000 inp y = Fin 0"
    using assms(1-4)
    by (simp add: R_total_part_000_def R_45Q_part_000_def R_VCM_def P_VCM_y_def
        R_offtake_part_000_def P_offtake_y_def R_comply_def escalation_rev_def)
  show ?thesis using a b c by blast
qed

theorem zero_fractions_zero_revenue_witness:
  "f_45Q (example_inputs\<lparr>f_45Q := 0, f_offtake := 0\<rparr>) = 0
   \<and> f_VCM (example_inputs\<lparr>f_45Q := 0, f_offtake := 0\<rparr>) = 0
   \<and> f_offtake (example_inputs\<lparr>f_45Q := 0, f_offtake := 0\<rparr>) = 0
   \<and> f_comply (example_inputs\<lparr>f_45Q := 0, f_offtake := 0\<rparr>) = 0
   \<and> revenue_in_double_range (example_inputs\<lparr>f_45Q := 0, f_offtake := 0\<rparr>) 1
   \<and> f_greenhouse (example_inputs\<lparr>f_45Q := 0, f_offtake := 0\<rparr>) = 0
   \<and> R_total (example_inputs\<lparr>f_45Q := 0, f_offtake := 0\<rparr>) 1 = Fin 0
   \<and> R_total_part_000 (example_inputs\<lparr>f_45Q := 0, f_offtake := 0\<rparr>) 1 = Fin 0
   \<and> yr_R_total
        (res_years (projr (runFinancialModel (example_inputs\<lparr>f_45Q := 0, f_offtake := 0\<rparr>))) ! 1)
       = Fin 0"
proof -
  let ?z = "example_inputs\<lparr>f_45Q := 0, f_offtake := 0\<rparr>"
  have h: "f_45Q ?z = 0" "f_VCM ?z = 0" "f_offtake ?z = 0" "f_comply ?z = 0"
    by (simp_all add: example_inputs_def)
  have rng: "revenue_in_double_range ?z 1"
    unfolding revenue_in_double_range_def
    by (intro conjI in_double_range_small)
       (simp_all add: example_inputs_def CO2_fleet_def CO2_tpy_def N_deployed_def)
  have g: "f_greenhouse ?z = 0" by (simp add: example_inputs_def)
  have T: "0 \<le> T_project ?z" by (simp add: example_inputs_def)
  note r = returns_projr [OF T]
  have n: "1 < num_years ?z" by (simp add: num_years_def example_inputs_def)
  note len = result_record_at(8) [OF T n]
  from zero_fractions_zero_revenue [OF h rng, of "projr (runFinancialModel ?z)"] g r len
  have a: "R_total ?z 1 = Fin 0"
    and b: "yr_R_total (res_years (projr (runFinancialModel ?z)) ! 1) = Fin 0"
    and c: "R_total_part_000 ?z 1 = Fin 0"
    by blast+
  with h rng g show ?thesis by blast
qed

theorem zero_fractions_zero_revenue_counterexample:
  "f_45Q (example_inputs\<lparr>f_45Q := 0, f_offtake := 0, f_greenhouse := 1 / 2\<rparr>) = 0
   \<and> f_VCM (example_inputs\<lparr>f_45Q := 0, f_offtake := 0, f_greenhouse := 1 / 2\<rparr>) = 0
   \<and> f_offtake (example_inputs\<lparr>f_45Q := 0, f_offtake := 0, f_greenhouse := 1 / 2\<rparr>) = 0
   \<and> f_comply (example_inputs\<lparr>f_45Q := 0, f_offtake := 0, f_greenhouse := 1 / 2\<rparr>) = 0
   \<and> yr_y (res_years (projr (runFinancialModel
          (example_inputs\<lparr>f_45Q := 0, f_offtake := 0, f_greenhouse := 1 / 2\<rparr>))) ! 0) = 0
   \<and> yr_R_total (res_years (projr (runFinancialModel
          (example_inputs\<lparr>f_45Q := 0, f_offtake := 0, f_greenhouse := 1 / 2\<rparr>))) ! 0)
       = Fin (160965 / 4)"
proof -
  let ?c = "example_inputs\<lparr>f_45Q := 0, f_offtake := 0, f_greenhouse := 1 / 2\<rparr>"
  have T: "0 \<le> T_project ?c" by (simp add: example_inputs_def)
  have n: "0 < num_years ?c" by (simp add: num_years_def example_inputs_def)
  have v: "R_total ?c 0 = Fin (160965 / 4)"
    by (simp add: example_inputs_def year_eval)
  have h: "f_45Q ?c = 0" "f_VCM ?c = 0" "f_offtake ?c = 0" "f_comply ?c = 0"
    by (simp_all add: example_inputs_def)
  from result_record_at(1,3) [OF T n] v
  have "yr_y (res_years (projr (runFinancialModel ?c)) ! 0) = 0"
    and "yr_R_total (res_years (projr (runFinancialModel ?c)) ! 0) = Fin (160965 / 4)"
    by simp_all
  with h show ?thesis by blast
qed

text \<open>
  Claim C8 (amended). The computation does not fail for any input with a horizon
  \<open>T_project \<ge> 0\<close>, and in every year record with zero fleet output the two ratio fields
  \<open>R_per_ton\<close> and \<open>OPEX_per_ton\<close> are 0: the ratios are guarded by \<open>CO2_fleet > 0\<close>, so
  no non-finite value is produced there.
\<close>
theorem zero_output_ratios_guarded:
  assumes "0 \<le> T_project inp"
  shows "\<exists>res. runFinancialModel inp = Inr res
           \<and> list_all (\<lambda>r. yr_CO2_fleet r = 0 \<longrightarrow>
                 yr_R_per_ton r = Fin 0 \<and> yr_OPEX_per_ton r = Fin 0) (res_years res)"
proof -
  from assms obtain res where res: "runFinancialModel inp = Inr res"
    using runFinancialModel_returns by blast
  have "list_all (\<lambda>r. yr_CO2_fleet r = 0 \<longrightarrow>
           yr_R_per_ton r = Fin 0 \<and> yr_OPEX_per_ton r = Fin 0) (res_years res)"
    unfolding list_all_iff
  proof
    fix r assume "r \<in> set (res_years res)"
    then have "record_of_year inp r" using in_years res by blast
    then show "yr_CO2_fleet r = 0 \<longrightarrow> yr_R_per_ton r = Fin 0 \<and> yr_OPEX_per_ton r = Fin 0"
      by (auto simp: record_of_year_def Let_def)
  qed
  with res show ?thesis by blast
qed

theorem zero_output_ratios_guarded_witness:
  "0 \<le> T_project (example_inputs\<lparr>f_avail := 0\<rparr>)
   \<and> runFinancialModel (example_inputs\<lparr>f_avail := 0\<rparr>)
       = Inr (projr (runFinancialModel (example_inputs\<lparr>f_avail := 0\<rparr>)))
   \<and> yr_CO2_fleet (res_years (projr (runFinancialModel (example_inputs\<lparr>f_avail := 0\<rparr>))) ! 0) = 0
   \<and> yr_R_per_ton (res_years (projr (runFinancialModel (example_inputs\<lparr>f_avail := 0\<rparr>))) ! 0)
       = Fin 0
   \<and> yr_OPEX_per_ton (res_years (projr (runFinancialModel (example_inputs\<lparr>f_avail := 0\<rparr>))) ! 0)
       = Fin 0"
proof -
  let ?z = "example_inputs\<lparr>f_avail := 0\<rparr>"
  have T: "0 \<le> T_project ?z" by (simp add: example_inputs_def)
  note r = returns_projr [OF T]
  have n: "0 < num_years ?z" by (simp add: num_years_def example_inputs_def)
  have z: "CO2_fleet ?z 0 = 0" by (simp add: example_inputs_def CO2_fleet_def CO2_tpy_def)
  from result_record_at(2) [OF T n] z
  have co2: "yr_CO2_fleet (res_years (projr (runFinancialModel ?z)) ! 0) = 0"
    by simp
  from zero_output_ratios_guarded [OF T] r
  have "list_all (\<lambda>r. yr_CO2_fleet r = 0 \<longrightarrow> yr_R_per_ton r = Fin 0 \<and> yr_OPEX_per_ton r = Fin 0)
          (res_years (projr (runFinancialModel ?z)))"
    by auto
  then have "yr_R_per_ton (res_years (projr (runFinancialModel ?z)) ! 0) = Fin 0
      \<and> yr_OPEX_per_ton (res_years (projr (runFinancialModel ?z)) ! 0) = Fin 0"
    using co2 result_record_at(8) [OF T n] unfolding list_all_length by blast
  with T r co2 show ?thesis by blast
qed

theorem zero_output_ratios_guarded_counterexample:
  "yr_CO2_fleet (res_years (projr (runFinancialModel (example_inputs\<lparr>CO2_tpd := 0\<rparr>))) ! 0) = 0
   \<and> yr_R_total (res_years (projr (runFinancialModel (example_inputs\<lparr>CO2_tpd := 0\<rparr>))) ! 0)
       = Fin 0
   \<and> js_finite (yr_R_per_ton
        (res_years (projr (runFinancialModel (example_inputs\<lparr>CO2_tpd := 0\<rparr>))) ! 0))
   \<and> js_finite (yr_OPEX_per_ton
        (res_years (projr (runFinancialModel (example_inputs\<lparr>CO2_tpd := 0\<rparr>))) ! 0))"
proof -
  let ?c = "example_inputs\<lparr>CO2_tpd := 0\<rparr>"
  have T: "0 \<le> T_project ?c" by (simp add: example_inputs_def)
  have n: "0 < num_years ?c" by (simp add: num_years_def example_inputs_def)
  have z: "CO2_fleet ?c 0 = 0" by (simp add: example_inputs_def CO2_fleet_def CO2_tpy_def)
  have v: "R_total ?c 0 = Fin 0" by (simp add: example_inputs_def year_eval)
  from result_record_at(2,3,6,7) [OF T n] z v show ?thesis
    by simp
qed

lemma be_step_inv:
  assumes "fst b \<le> snd b"
  shows "fst b \<le> fst (be_step inp yrs b) \<and> fst (be_step inp yrs b) \<le> snd (be_step inp yrs b)
       \<and> snd (be_step inp yrs b) \<le> snd b"
  using assms by (simp add: be_step_def Let_def)

lemma be_funpow_inv:
  assumes "fst b \<le> snd b"
  shows "fst b \<le> fst ((be_step inp yrs ^^ k) b)
       \<and> fst ((be_step inp yrs ^^ k) b) \<le> snd ((be_step inp yrs ^^ k) b)
       \<and> snd ((be_step inp yrs ^^ k) b) \<le> snd b"
proof (induction k)
  case 0
  show ?case using assms by simp
next
  case (Suc k)
  then show ?case
    using be_step_inv [where b = "(be_step inp yrs ^^ k) b" and inp = inp and yrs = yrs] by simp
qed

lemma be_loop_funpow:
  "iter < 80 \<Longrightarrow>
     \<exists>n. 1 \<le> n \<and> iter + n \<le> 80 \<and> be_loop inp yrs iter b = (be_step inp yrs ^^ n) b
        \<and> (iter + n = 80 \<or> \<bar>snd (be_loop inp yrs iter b) - fst (be_loop inp yrs iter b)\<bar> < 0.5)"
proof (induction inp yrs iter b rule: be_loop.induct)
  case (1 inp yrs iter b)
  let ?b' = "be_step inp yrs b"
  show ?case
  proof (cases "\<bar>snd ?b' - fst ?b'\<bar> < 0.5")
    case True
    then have "be_loop inp yrs iter b = ?b'"
      using "1.prems" by (simp add: be_loop.simps [of inp yrs iter b] Let_def)
    then show ?thesis
      using True "1.prems" by (intro exI [of _ 1]) simp
  next
    case wide: False
    then have unfold: "be_loop inp yrs iter b = be_loop inp yrs (Suc iter) ?b'"
      using "1.prems" by (simp add: be_loop.simps [of inp yrs iter b] Let_def)
    show ?thesis
    proof (cases "Suc iter < 80")
      case True
      from "1.IH" [OF "1.prems" refl wide True] obtain n where n:
        "1 \<le> n" "Suc iter + n \<le> 80" "be_loop inp yrs (Suc iter) ?b' = (be_step inp yrs ^^ n) ?b'"
        "Suc iter + n = 80 \<or> \<bar>snd (be_loop inp yrs (Suc iter) ?b') - fst (be_loop inp yrs (Suc iter) ?b')\<bar> < 0.5"
        by blast
      have "(be_step inp yrs ^^ n) ?b' = (be_step inp yrs ^^ Suc n) b"
        by (simp add: funpow_swap1)
      then show ?thesis
        using n unfold by (intro exI [of _ "Suc n"]) simp
    next
      case False
      then have "be_loop inp yrs (Suc iter) ?b' = ?b'"
        by (simp add: be_loop.simps [of inp yrs "Suc iter" ?b'])
      then show ?thesis
        using unfold False "1.prems" by (intro exI [of _ 1]) simp
    qed
  qed
qed

text \<open>
  Claim C9. The breakeven credit price is the midpoint of the final bracket of the
  bisection and lies in \<open>[0, 300]\<close>: the loop runs its body between 1 and 80 times, and
  after any number of iterations \<open>0 \<le> b_lo \<le> b_hi \<le> 300\<close>. This is the value returned by
  \<open>runFinancialModel\<close> whenever it returns; it is always a number.
\<close>
theorem breakeven_within_bracket:
  "0 \<le> CR_breakeven inp yrs \<and> CR_breakeven inp yrs \<le> 300
   \<and> (\<exists>n. 1 \<le> n \<and> n \<le> 80 \<and> be_bracket inp yrs = (be_step inp yrs ^^ n) (0, 300))
   \<and> (0 \<le> fst ((be_step inp yrs ^^ k) (0, 300))
        \<and> fst ((be_step inp yrs ^^ k) (0, 300)) \<le> snd ((be_step inp yrs ^^ k) (0, 300))
        \<and> snd ((be_step inp yrs ^^ k) (0, 300)) \<le> 300)
   \<and> CR_breakeven inp yrs = (fst (be_bracket inp yrs) + snd (be_bracket inp yrs)) / 2
   \<and> (runFinancialModel inp = Inr res \<longrightarrow>
        res_CR_breakeven res = CR_breakeven inp (res_years res)
        \<and> 0 \<le> res_CR_breakeven res \<and> res_CR_breakeven res \<le> 300)"
proof -
  have inv: "0 \<le> fst ((be_step inp ys ^^ j) (0, 300))
       \<and> fst ((be_step inp ys ^^ j) (0, 300)) \<le> snd ((be_step inp ys ^^ j) (0, 300))
       \<and> snd ((be_step inp ys ^^ j) (0, 300)) \<le> 300" for ys j
    using be_funpow_inv [where b = "(0, 300)" and inp = inp and yrs = ys and k = j] by simp
  have iters: "\<exists>n. 1 \<le> n \<and> n \<le> 80 \<and> be_bracket inp ys = (be_step inp ys ^^ n) (0, 300)" for ys
    using be_loop_funpow [where iter = 0 and inp = inp and yrs = ys and b = "(0, 300)"] unfolding be_bracket_def by auto
  have rng: "0 \<le> CR_breakeven inp ys \<and> CR_breakeven inp ys \<le> 300" for ys
  proof -
    from iters [of ys] obtain n where "be_bracket inp ys = (be_step inp ys ^^ n) (0, 300)" by blast
    then show ?thesis using inv [where ys = ys and j = n] by (simp add: CR_breakeven_def)
  qed
  have res: "res_CR_breakeven res = CR_breakeven inp (res_years res)"
    if "runFinancialModel inp = Inr res"
    using result_fields(3) [OF that] .
  have mid: "CR_breakeven inp yrs = (fst (be_bracket inp yrs) + snd (be_bracket inp yrs)) / 2"
    by (simp add: CR_breakeven_def)
  show ?thesis
    using inv [where ys = yrs and j = k] iters [of yrs] rng [of yrs] rng [of "res_years res"] res mid
    by auto
qed

theorem breakeven_within_bracket_witness:
  "runFinancialModel example_inputs = Inr (projr (runFinancialModel example_inputs))
   \<and> res_CR_breakeven (projr (runFinancialModel example_inputs))
       = CR_breakeven example_inputs (res_years (projr (runFinancialModel example_inputs)))
   \<and> 0 \<le> res_CR_breakeven (projr (runFinancialModel example_inputs))
   \<and> res_CR_breakeven (projr (runFinancialModel example_inputs)) \<le> 300"
proof -
  have T: "0 \<le> T_project example_inputs" by (simp add: example_inputs_def)
  note r = returns_projr [OF T]
  from breakeven_within_bracket [of example_inputs "[]" 0 "projr (runFinancialModel example_inputs)"] r
  show ?thesis by blast
qed

lemma irr_step_inv:
  assumes "fst b \<le> snd b"
  shows "fst b \<le> fst (irr_step yrs b) \<and> fst (irr_step yrs b) \<le> snd (irr_step yrs b)
       \<and> snd (irr_step yrs b) \<le> snd b"
  using assms by (simp add: irr_step_def Let_def)

lemma irr_funpow_inv:
  assumes "fst b \<le> snd b"
  shows "fst b \<le> fst ((irr_step yrs ^^ k) b)
       \<and> fst ((irr_step yrs ^^ k) b) \<le> snd ((irr_step yrs ^^ k) b)
       \<and> snd ((irr_step yrs ^^ k) b) \<le> snd b"
proof (induction k)
  case 0
  show ?case using assms by simp
next
  case (Suc k)
  then show ?case
    using irr_step_inv [where b = "(irr_step yrs ^^ k) b" and yrs = yrs] by simp
qed

lemma irr_loop_funpow:
  "iter < 100 \<Longrightarrow>
     \<exists>n. 1 \<le> n \<and> iter + n \<le> 100 \<and> irr_loop yrs iter b = (irr_step yrs ^^ n) b
        \<and> (iter + n = 100 \<or> \<bar>snd (irr_loop yrs iter b) - fst (irr_loop yrs iter b)\<bar> < 0.0001)"
proof (induction yrs iter b rule: irr_loop.induct)
  case (1 yrs iter b)
  let ?b' = "irr_step yrs b"
  show ?case
  proof (cases "\<bar>snd ?b' - fst ?b'\<bar> < 0.0001")
    case True
    then have "irr_loop yrs iter b = ?b'"
      using "1.prems" by (simp add: irr_loop.simps [of yrs iter b] Let_def)
    then show ?thesis
      using True "1.prems" by (intro exI [of _ 1]) simp
  next
    case wide: False
    then have unfold: "irr_loop yrs iter b = irr_loop yrs (Suc iter) ?b'"
      using "1.prems" by (simp add: irr_loop.simps [of yrs iter b] Let_def)
    show ?thesis
    proof (cases "Suc iter < 100")
      case True
      from "1.IH" [OF "1.prems" refl wide True] obtain n where n:
        "1 \<le> n" "Suc iter + n \<le> 100" "irr_loop yrs (Suc iter) ?b' = (irr_step yrs ^^ n) ?b'"
        "Suc iter + n = 100 \<or> \<bar>snd (irr_loop yrs (Suc iter) ?b') - fst (irr_loop yrs (Suc iter) ?b')\<bar> < 0.0001"
        by blast
      have "(irr_step yrs ^^ n) ?b' = (irr_step yrs ^^ Suc n) b"
        by (simp add: funpow_swap1)
      then show ?thesis
        using n unfold by (intro exI [of _ "Suc n"]) simp
    next
      case False
      then have "irr_loop yrs (Suc iter) ?b' = ?b'"
        by (simp add: irr_loop.simps [of yrs "Suc iter" ?b'])
      then show ?thesis
        using unfold False "1.prems" by (intro exI [of _ 1]) simp
    qed
  qed
qed

lemma irr_step_pos:
  "js_gt (irr_npv_test yrs ((fst b + snd b) / 2)) (Fin 0) \<Longrightarrow> snd (irr_step yrs b) = snd b"
  by (simp add: irr_step_def Let_def)

lemma irr_step_nonpos:
  "\<not> js_gt (irr_npv_test yrs ((fst b + snd b) / 2)) (Fin 0) \<Longrightarrow> fst (irr_step yrs b) = fst b"
  by (simp add: irr_step_def Let_def)

lemma irr_all_positive:
  assumes "\<forall>mid. - 1/2 \<le> mid \<and> mid \<le> 2 \<longrightarrow> js_gt (irr_npv_test yrs mid) (Fin 0)"
  shows "snd ((irr_step yrs ^^ k) (- 1/2, 2)) = 2"
proof (induction k)
  case 0
  show ?case by simp
next
  case (Suc k)
  let ?b = "(irr_step yrs ^^ k) (- 1/2, 2)"
  have inv: "- 1/2 \<le> fst ?b \<and> fst ?b \<le> snd ?b \<and> snd ?b \<le> 2"
    using irr_funpow_inv [where b = "(- 1/2, 2)" and yrs = yrs and k = k] by simp
  then have "js_gt (irr_npv_test yrs ((fst ?b + snd ?b) / 2)) (Fin 0)"
    using assms by simp
  from irr_step_pos [OF this] show ?case using Suc by simp
qed

lemma irr_all_nonpositive:
  assumes "\<forall>mid. - 1/2 \<le> mid \<and> mid \<le> 2 \<longrightarrow> \<not> js_gt (irr_npv_test yrs mid) (Fin 0)"
  shows "fst ((irr_step yrs ^^ k) (- 1/2, 2)) = - 1/2"
proof (induction k)
  case 0
  show ?case by simp
next
  case (Suc k)
  let ?b = "(irr_step yrs ^^ k) (- 1/2, 2)"
  have inv: "- 1/2 \<le> fst ?b \<and> fst ?b \<le> snd ?b \<and> snd ?b \<le> 2"
    using irr_funpow_inv [where b = "(- 1/2, 2)" and yrs = yrs and k = k] by simp
  then have "\<not> js_gt (irr_npv_test yrs ((fst ?b + snd ?b) / 2)) (Fin 0)"
    using assms by simp
  from irr_step_nonpos [OF this] show ?case using Suc by simp
qed

lemma irr_iters:
  "\<exists>n. 1 \<le> n \<and> n \<le> 100 \<and> irr_bracket yrs = (irr_step yrs ^^ n) (- 1/2, 2)
      \<and> (n = 100 \<or> \<bar>snd (irr_bracket yrs) - fst (irr_bracket yrs)\<bar> < 1/10000)"
  using irr_loop_funpow [where iter = 0 and yrs = yrs and b = "(- 0.5, 2.0)"]
  unfolding irr_bracket_def by auto

text \<open>
  Claim C3 (amended). The IRR solver bisects the bracket \<open>[-0.5, 2]\<close>, running its body at
  least once and at most 100 times and stopping early once the width is below 0.0001.
  It reports no IRR exactly when at least one endpoint of the final bracket is within
  0.01 of its initial value (\<open>lo\<close> of -0.5 or \<open>hi\<close> of 2); otherwise it reports the midpoint
  of the final bracket. In particular, when the test \<open>npv_test > 0\<close> has the same outcome at
  every rate of the bracket, the IRR is null. The solver is a total function: it never
  throws.
\<close>
theorem irr_null_iff_an_endpoint_unmoved:
  "(\<exists>n. 1 \<le> n \<and> n \<le> 100 \<and> irr_bracket yrs = (irr_step yrs ^^ n) (- 1/2, 2)
      \<and> (n = 100 \<or> \<bar>snd (irr_bracket yrs) - fst (irr_bracket yrs)\<bar> < 1/10000))
   \<and> (IRR yrs = None \<longleftrightarrow>
        \<bar>fst (irr_bracket yrs) - (- 1/2)\<bar> \<le> 1/100 \<or> \<bar>snd (irr_bracket yrs) - 2\<bar> \<le> 1/100)
   \<and> (IRR yrs \<noteq> None \<longrightarrow>
        IRR yrs = Some ((fst (irr_bracket yrs) + snd (irr_bracket yrs)) / 2))
   \<and> ((\<forall>mid. - 1/2 \<le> mid \<and> mid \<le> 2 \<longrightarrow> js_gt (irr_npv_test yrs mid) (Fin 0))
        \<or> (\<forall>mid. - 1/2 \<le> mid \<and> mid \<le> 2 \<longrightarrow> \<not> js_gt (irr_npv_test yrs mid) (Fin 0))
       \<longrightarrow> IRR yrs = None)
   \<and> (runFinancialModel inp = Inr res \<longrightarrow> res_IRR res = IRR (res_years res))"
proof -
  have null: "IRR yrs = None \<longleftrightarrow>
        \<bar>fst (irr_bracket yrs) - (- 1/2)\<bar> \<le> 1/100 \<or> \<bar>snd (irr_bracket yrs) - 2\<bar> \<le> 1/100"
    by (auto simp: IRR_def Let_def)
  have some: "IRR yrs \<noteq> None \<longrightarrow>
        IRR yrs = Some ((fst (irr_bracket yrs) + snd (irr_bracket yrs)) / 2)"
    by (auto simp: IRR_def Let_def)
  from irr_iters [of yrs] obtain n where n: "irr_bracket yrs = (irr_step yrs ^^ n) (- 1/2, 2)"
    by blast
  have pos: "IRR yrs = None"
    if "\<forall>mid. - 1/2 \<le> mid \<and> mid \<le> 2 \<longrightarrow> js_gt (irr_npv_test yrs mid) (Fin 0)"
    using irr_all_positive [OF that, of n] n null by simp
  have neg: "IRR yrs = None"
    if "\<forall>mid. - 1/2 \<le> mid \<and> mid \<le> 2 \<longrightarrow> \<not> js_gt (irr_npv_test yrs mid) (Fin 0)"
    using irr_all_nonpositive [OF that, of n] n null by simp
  have res: "runFinancialModel inp = Inr res \<longrightarrow> res_IRR res = IRR (res_years res)"
    using result_fields(4) by blast
  show ?thesis
    using irr_iters [of yrs] null some pos neg res by blast
qed

lemma irr_npv_test_single:
  "length yrs = 1 \<Longrightarrow>
     irr_npv_test yrs mid =
       js_add (Fin 0) (js_div (yr_CF (yrs ! 0)) (js_pow (Fin (1 + mid)) (Fin (real (yr_y (yrs ! 0))))))"
  by (cases yrs) (auto simp: irr_npv_test_def)

lemma one_year_npv_test:
  "irr_npv_test (res_years (projr (runFinancialModel (example_inputs\<lparr>T_project := 0\<rparr>)))) mid
     = Fin (- (84586899 / 280))"
proof -
  let ?c = "example_inputs\<lparr>T_project := 0\<rparr>"
  have T: "0 \<le> T_project ?c" by (simp add: example_inputs_def)
  have n: "num_years ?c = 1" by (simp add: num_years_def example_inputs_def)
  have len: "length (res_years (projr (runFinancialModel ?c))) = 1"
    using n by (simp only: result_fields(1) [OF returns_projr [OF T]] years_length)
  have i: "0 < num_years ?c" by (simp add: n)
  have cf: "CF ?c 0 = Fin (- (84586899 / 280))"
    by (simp add: example_inputs_def year_eval)
  show ?thesis
    by (simp add: irr_npv_test_single [OF len] result_record_at(1,5) [OF T i] cf js_pow.simps)
qed

lemma irr_npv_test_two:
  "length yrs = 2 \<Longrightarrow>
     irr_npv_test yrs mid =
       js_add
         (js_add (Fin 0)
            (js_div (yr_CF (yrs ! 0)) (js_pow (Fin (1 + mid)) (Fin (real (yr_y (yrs ! 0)))))))
         (js_div (yr_CF (yrs ! 1)) (js_pow (Fin (1 + mid)) (Fin (real (yr_y (yrs ! 1))))))"
proof -
  assume "length yrs = 2"
  then obtain a b where "yrs = [a, b]"
    by (auto simp: numeral_2_eq_2 length_Suc_conv)
  then show ?thesis by (simp add: irr_npv_test_def)
qed

lemma two_year_npv_test:
  "irr_npv_test
     (res_years (projr (runFinancialModel
        (example_inputs\<lparr>T_project := 1, N_units := 1, P_offtake := 400\<rparr>)))) mid
     = js_add
         (js_add (Fin 0)
            (js_div (Fin (- (31468449 / 280))) (js_pow (Fin (1 + mid)) (Fin (real 0)))))
         (js_div (Fin (737578269 / 3500)) (js_pow (Fin (1 + mid)) (Fin (real 1))))"
proof -
  let ?c = "example_inputs\<lparr>T_project := 1, N_units := 1, P_offtake := 400\<rparr>"
  have T: "0 \<le> T_project ?c" by (simp add: example_inputs_def)
  have n: "num_years ?c = 2" by (simp add: num_years_def example_inputs_def)
  have len: "length (res_years (projr (runFinancialModel ?c))) = 2"
    using n by (simp only: result_fields(1) [OF returns_projr [OF T]] years_length)
  have i: "0 < num_years ?c" "1 < num_years ?c" by (simp_all add: n)
  have cf: "CF ?c 0 = Fin (- (31468449 / 280))" "CF ?c 1 = Fin (737578269 / 3500)"
    by (simp_all add: example_inputs_def year_eval)
  show ?thesis
    by (simp only: irr_npv_test_two [OF len] result_record_at(1,5) [OF T i(1)]
        result_record_at(1,5) [OF T i(2)] cf)
qed

lemma two_year_bracket:
  "irr_bracket
     (res_years (projr (runFinancialModel
        (example_inputs\<lparr>T_project := 1, N_units := 1, P_offtake := 400\<rparr>))))
     = (57347 / 65536, 7169 / 8192)"
  by (simp add: irr_bracket_def irr_loop.simps irr_step_def Let_def two_year_npv_test js_gt_def
      js_pow.simps is_integral_def)

theorem irr_null_iff_an_endpoint_unmoved_witness:
  "runFinancialModel (example_inputs\<lparr>T_project := 0\<rparr>)
     = Inr (projr (runFinancialModel (example_inputs\<lparr>T_project := 0\<rparr>)))
   \<and> IRR (res_years (projr (runFinancialModel (example_inputs\<lparr>T_project := 0\<rparr>)))) = None
   \<and> res_IRR (projr (runFinancialModel (example_inputs\<lparr>T_project := 0\<rparr>))) = None
   \<and> IRR (res_years (projr (runFinancialModel
         (example_inputs\<lparr>T_project := 1, N_units := 1, P_offtake := 400\<rparr>))))
       = Some (114699 / 131072)"
proof -
  let ?c = "example_inputs\<lparr>T_project := 0\<rparr>"
  let ?yrs = "res_years (projr (runFinancialModel ?c))"
  let ?yrs2 = "res_years (projr (runFinancialModel
         (example_inputs\<lparr>T_project := 1, N_units := 1, P_offtake := 400\<rparr>)))"
  have T: "0 \<le> T_project ?c" by (simp add: example_inputs_def)
  note r = returns_projr [OF T]
  have neg: "\<forall>mid. - 1/2 \<le> mid \<and> mid \<le> 2 \<longrightarrow> \<not> js_gt (irr_npv_test ?yrs mid) (Fin 0)"
    by (simp add: one_year_npv_test js_gt_def)
  from irr_null_iff_an_endpoint_unmoved [of ?yrs ?c "projr (runFinancialModel ?c)"] neg r
  have a: "IRR ?yrs = None" and b: "res_IRR (projr (runFinancialModel ?c)) = IRR ?yrs"
    by blast+
  have moved: "\<not> (\<bar>fst (irr_bracket ?yrs2) - (- 1 / 2)\<bar> \<le> 1 / 100
                \<or> \<bar>snd (irr_bracket ?yrs2) - 2\<bar> \<le> 1 / 100)"
    by (simp add: two_year_bracket)
  from irr_null_iff_an_endpoint_unmoved [of ?yrs2 ?c "projr (runFinancialModel ?c)"] moved
  have "IRR ?yrs2 = Some ((fst (irr_bracket ?yrs2) + snd (irr_bracket ?yrs2)) / 2)"
    by blast
  then have c: "IRR ?yrs2 = Some (114699 / 131072)"
    by (simp add: two_year_bracket)
  from r a b c show ?thesis by simp
qed

theorem irr_null_iff_an_endpoint_unmoved_counterexample:
  "IRR (res_years (projr (runFinancialModel (example_inputs\<lparr>T_project := 0\<rparr>)))) = None
   \<and> irr_bracket (res_years (projr (runFinancialModel (example_inputs\<lparr>T_project := 0\<rparr>))))
       = (- (1 / 2), - (32763 / 65536))
   \<and> \<not> (\<bar>fst (irr_bracket (res_years (projr (runFinancialModel (example_inputs\<lparr>T_project := 0\<rparr>)))))
            - (- 1 / 2)\<bar> \<le> 1 / 100
         \<and> \<bar>snd (irr_bracket (res_years (projr (runFinancialModel (example_inputs\<lparr>T_project := 0\<rparr>)))))
            - 2\<bar> \<le> 1 / 100)"
proof -
  let ?yrs = "res_years (projr (runFinancialModel (example_inputs\<lparr>T_project := 0\<rparr>)))"
  have b: "irr_bracket ?yrs = (- (1 / 2), - (32763 / 65536))"
    by (simp add: irr_bracket_def irr_loop.simps irr_step_def Let_def one_year_npv_test js_gt_def)
  show ?thesis by (simp add: IRR_def Let_def b)
qed

lemma capex_loop_prefix: "\<exists>zs. fst (capex_loop inp n (uc, t)) = uc @ zs"
proof (induction inp n "(uc, t)" arbitrary: uc t rule: capex_loop.induct)
  case (1 inp n uc tot)
  show ?case
  proof (cases "real n \<le> N_units inp")
    case True
    let ?c = "js_mul (Fin (CAPEX_unit1 inp)) (js_pow (Fin (real n)) (lr_exp inp))"
    from "1.hyps" [OF True refl] obtain zs where
      "fst (capex_loop inp (Suc n) (uc @ [?c], js_add tot ?c)) = (uc @ [?c]) @ zs" by blast
    then show ?thesis
      using True by (simp add: capex_loop.simps [of inp n uc tot] Let_def)
  next
    case False
    then show ?thesis by (simp add: capex_loop.simps [of inp n uc tot])
  qed
qed

lemma js_pow_one: "js_pow (Fin 1) (Fin e) = Fin 1"
  by (simp add: js_pow.simps)

lemma lr_exp_finite: "0 < LR inp \<Longrightarrow> lr_exp inp = Fin (ln (LR inp) / ln 2)"
  by (simp add: lr_exp_def)

text \<open>
  Claim C5 (amended). For every input with a learning rate \<open>LR > 0\<close> and a fleet size
  \<open>N_units \<ge> 1\<close>, the first entry of \<open>unit_capex\<close> is exactly \<open>CAPEX_unit1\<close>, the sum of the
  eleven capital line items times \<open>1 + f_install + f_engineering\<close>: the factor
  \<open>Math.pow(1, lr_exp)\<close> is exactly 1. (For \<open>LR \<le> 0\<close> the exponent is not a finite number
  and the factor is NaN: see the counterexample.)
\<close>
theorem first_unit_capex_is_unit1:
  assumes "0 < LR inp" and "1 \<le> N_units inp"
  shows "js_index (unit_capex inp) 0 = Some (Fin (CAPEX_unit1 inp))
       \<and> js_pow (Fin 1) (lr_exp inp) = Fin 1
       \<and> CAPEX_unit1 inp =
           (C_vessels inp + C_adsorbent inp + C_HX inp + C_blower inp + C_valves inp
            + C_compressor inp + C_pretreat inp + C_controls inp + C_electrical inp
            + C_piping inp + C_container inp) * (1 + f_install inp + f_engineering inp)
       \<and> (runFinancialModel inp = Inr res \<longrightarrow>
            js_index (res_unit_capex res) 0 = Some (Fin (res_CAPEX_unit1 res)))"
proof -
  have p1: "js_pow (Fin 1) (lr_exp inp) = Fin 1"
    using assms(1) by (simp add: lr_exp_finite js_pow_one)
  let ?c = "js_mul (Fin (CAPEX_unit1 inp)) (js_pow (Fin (real (1::nat))) (lr_exp inp))"
  have c: "?c = Fin (CAPEX_unit1 inp)" using p1 by simp
  have "capex_loop inp 1 ([], Fin 0) = capex_loop inp (Suc 1) ([] @ [?c], js_add (Fin 0) ?c)"
    using assms(2) by (subst capex_loop.simps) (simp add: Let_def)
  moreover obtain zs where
    "fst (capex_loop inp (Suc 1) ([] @ [?c], js_add (Fin 0) ?c)) = ([] @ [?c]) @ zs"
    using capex_loop_prefix by blast
  ultimately have "unit_capex inp = Fin (CAPEX_unit1 inp) # zs"
    using c by (simp add: unit_capex_def)
  then have first: "js_index (unit_capex inp) 0 = Some (Fin (CAPEX_unit1 inp))"
    by simp
  have res: "js_index (res_unit_capex res) 0 = Some (Fin (res_CAPEX_unit1 res))"
    if "runFinancialModel inp = Inr res"
    using first by (simp add: result_fields(5,6) [OF that])
  show ?thesis
    using first p1 res by (simp add: CAPEX_unit1_def C_equipment_def)
qed

theorem first_unit_capex_is_unit1_witness:
  "0 < LR example_inputs \<and> 1 \<le> N_units example_inputs
   \<and> CAPEX_unit1 example_inputs = 319950
   \<and> js_index (unit_capex example_inputs) 0 = Some (Fin 319950)
   \<and> js_index (res_unit_capex (projr (runFinancialModel example_inputs))) 0
       = Some (Fin (res_CAPEX_unit1 (projr (runFinancialModel example_inputs))))"
proof -
  have h: "0 < LR example_inputs" "1 \<le> N_units example_inputs"
    by (simp_all add: example_inputs_def)
  have T: "0 \<le> T_project example_inputs" by (simp add: example_inputs_def)
  have v: "CAPEX_unit1 example_inputs = 319950"
    by (simp add: example_inputs_def CAPEX_unit1_def C_equipment_def)
  from first_unit_capex_is_unit1 [OF h, of "projr (runFinancialModel example_inputs)"]
       returns_projr [OF T]
  have a: "js_index (unit_capex example_inputs) 0 = Some (Fin (CAPEX_unit1 example_inputs))"
    and b: "js_index (res_unit_capex (projr (runFinancialModel example_inputs))) 0
       = Some (Fin (res_CAPEX_unit1 (projr (runFinancialModel example_inputs))))"
    by blast+
  from h v a b show ?thesis by simp
qed

theorem first_unit_capex_is_unit1_counterexample:
  "CAPEX_unit1 (example_inputs\<lparr>LR := 0\<rparr>) = 319950
   \<and> lr_exp (example_inputs\<lparr>LR := 0\<rparr>) = NInf
   \<and> js_pow (Fin 1) (lr_exp (example_inputs\<lparr>LR := 0\<rparr>)) = NaN
   \<and> js_index (unit_capex (example_inputs\<lparr>LR := 0\<rparr>)) 0 = Some NaN"
  by (simp add: example_inputs_def year_eval)

lemma result_yr1:
  assumes "runFinancialModel inp = Inr res"
  shows "\<exists>r. yr1 (res_years res) = Some r
           \<and> res_CO2_fleet_yr1 res = yr_CO2_fleet r
           \<and> res_R_per_ton_45Q res = per_ton r (yr_R_45Q r)
           \<and> res_R_per_ton_VCM res = per_ton r (yr_R_VCM r)
           \<and> res_R_per_ton_offtake res = per_ton r (yr_R_offtake r)
           \<and> res_R_per_ton_comply res = per_ton r (yr_R_comply r)
           \<and> res_yr1_revenue res = yr_R_total r
           \<and> res_yr1_opex res = yr_OPEX r"
  using assms by (auto simp: runFinancialModel_def Let_def split: option.splits)

lemma integral_horizon_cases:
  assumes "is_integral (T_project inp)" and "0 \<le> T_project inp"
  shows "1 \<le> T_project inp \<or> T_project inp = 0"
proof -
  define k where "k = \<lfloor>T_project inp\<rfloor>"
  have "of_int k = T_project inp"
    using assms(1) unfolding is_integral_def k_def .
  then have eq: "T_project inp = of_int k" by (rule sym)
  have "0 \<le> k" using assms(2) unfolding k_def by simp
  then have "1 \<le> k \<or> k = 0" by linarith
  then show ?thesis using eq by auto
qed

text \<open>
  Claim C10. The horizon is a whole number of years. When \<open>runFinancialModel\<close> returns,
  the year-1 summary outputs (\<open>CO2_fleet_yr1\<close>, the four per-ton revenue fields,
  \<open>yr1_revenue\<close>, \<open>yr1_opex\<close>) are computed from the record of year offset 1 whenever
  \<open>T_project \<ge> 1\<close>, and from the record of year offset 0 otherwise; the fallback is taken
  exactly when \<open>T_project = 0\<close>, which is exactly when the sequence has no second entry.
\<close>

theorem year1_summary_source:
  assumes "runFinancialModel inp = Inr res" and "is_integral (T_project inp)"
  shows "(\<exists>r. (if 1 \<le> T_project inp
                then r = res_years res ! 1 \<and> yr_y r = 1
                else r = res_years res ! 0 \<and> yr_y r = 0 \<and> T_project inp = 0)
             \<and> res_CO2_fleet_yr1 res = yr_CO2_fleet r
             \<and> res_R_per_ton_45Q res = per_ton r (yr_R_45Q r)
             \<and> res_R_per_ton_VCM res = per_ton r (yr_R_VCM r)
             \<and> res_R_per_ton_offtake res = per_ton r (yr_R_offtake r)
             \<and> res_R_per_ton_comply res = per_ton r (yr_R_comply r)
             \<and> res_yr1_revenue res = yr_R_total r
             \<and> res_yr1_opex res = yr_OPEX r)
       \<and> (yr1 (res_years res) = js_index (res_years res) 0 \<longleftrightarrow> T_project inp = 0)
       \<and> (length (res_years res) < 2 \<longleftrightarrow> T_project inp = 0)"
proof -
  have T0: "0 \<le> T_project inp"
    using assms(1) runFinancialModel_returns by blast
  note yrs = result_fields(1) [OF assms(1)]
  have len: "length (res_years res) = num_years inp"
    by (simp only: yrs years_length)
  from result_yr1 [OF assms(1)] obtain r where r:
    "yr1 (res_years res) = Some r" "res_CO2_fleet_yr1 res = yr_CO2_fleet r"
    "res_R_per_ton_45Q res = per_ton r (yr_R_45Q r)"
    "res_R_per_ton_VCM res = per_ton r (yr_R_VCM r)"
    "res_R_per_ton_offtake res = per_ton r (yr_R_offtake r)"
    "res_R_per_ton_comply res = per_ton r (yr_R_comply r)"
    "res_yr1_revenue res = yr_R_total r" "res_yr1_opex res = yr_OPEX r"
    by blast
  show ?thesis
  proof (cases "1 \<le> T_project inp")
    case True
    then have n: "1 < num_years inp" using num_years_gt1 by blast
    then have "yr1 (res_years res) = Some (res_years res ! 1)"
      by (simp add: yr1_cases len)
    with r(1) have r1: "r = res_years res ! 1" by simp
    have y: "yr_y (res_years res ! 1) = 1"
      using years_nth(1) [OF n] by (simp only: yrs)
    have d: "res_years res ! 1 \<noteq> res_years res ! 0"
      using y years_nth(1) [of 0 inp] n by (metis yrs less_trans zero_less_one zero_neq_one)
    have fb: "yr1 (res_years res) \<noteq> js_index (res_years res) 0"
      using n d r(1) r1 by (auto simp: len)
    show ?thesis
      using True r r1 y fb n len by auto
  next
    case False
    with integral_horizon_cases [OF assms(2) T0] have Tz: "T_project inp = 0" by blast
    then have n: "num_years inp = 1" by (simp add: num_years_def)
    then have "yr1 (res_years res) = Some (res_years res ! 0)"
      using len by (auto simp: yr1_cases)
    with r(1) have r0: "r = res_years res ! 0" by simp
    have y: "yr_y (res_years res ! 0) = 0"
      using years_nth(1) [of 0 inp] n by (simp add: yrs)
    have fb: "yr1 (res_years res) = js_index (res_years res) 0"
      using n len by (auto simp: yr1_cases)
    show ?thesis
      using False Tz r r0 y fb n len by auto
  qed
qed

theorem year1_summary_source_witness:
  "runFinancialModel example_inputs = Inr (projr (runFinancialModel example_inputs))
   \<and> is_integral (T_project example_inputs)
   \<and> 1 \<le> T_project example_inputs
   \<and> yr_y (res_years (projr (runFinancialModel example_inputs)) ! 1) = 1
   \<and> res_CO2_fleet_yr1 (projr (runFinancialModel example_inputs))
       = yr_CO2_fleet (res_years (projr (runFinancialModel example_inputs)) ! 1)
   \<and> res_yr1_revenue (projr (runFinancialModel example_inputs))
       = yr_R_total (res_years (projr (runFinancialModel example_inputs)) ! 1)
   \<and> res_yr1_opex (projr (runFinancialModel example_inputs))
       = yr_OPEX (res_years (projr (runFinancialModel example_inputs)) ! 1)
   \<and> res_CO2_fleet_yr1 (projr (runFinancialModel example_inputs)) = 4599 / 2
   \<and> runFinancialModel (example_inputs\<lparr>T_project := 0\<rparr>)
       = Inr (projr (runFinancialModel (example_inputs\<lparr>T_project := 0\<rparr>)))
   \<and> is_integral (T_project (example_inputs\<lparr>T_project := 0\<rparr>))
   \<and> yr_y (res_years (projr (runFinancialModel (example_inputs\<lparr>T_project := 0\<rparr>))) ! 0) = 0
   \<and> res_CO2_fleet_yr1 (projr (runFinancialModel (example_inputs\<lparr>T_project := 0\<rparr>)))
       = yr_CO2_fleet (res_years (projr (runFinancialModel (example_inputs\<lparr>T_project := 0\<rparr>))) ! 0)
   \<and> res_CO2_fleet_yr1 (projr (runFinancialModel (example_inputs\<lparr>T_project := 0\<rparr>))) = 4599 / 4"
proof -
  let ?z = "example_inputs\<lparr>T_project := 0\<rparr>"
  have T: "0 \<le> T_project example_inputs" "1 \<le> T_project example_inputs"
    "is_integral (T_project example_inputs)"
    by (simp_all add: example_inputs_def is_integral_def)
  have Tz: "0 \<le> T_project ?z" "\<not> 1 \<le> T_project ?z" "is_integral (T_project ?z)"
    by (simp_all add: example_inputs_def is_integral_def)
  note r = returns_projr [OF T(1)]
  note rz = returns_projr [OF Tz(1)]
  have n: "1 < num_years example_inputs" by (simp add: num_years_def example_inputs_def)
  have nz: "0 < num_years ?z" by (simp add: num_years_def example_inputs_def)
  have v: "CO2_fleet example_inputs 1 = 4599 / 2"
    by (simp add: example_inputs_def CO2_fleet_def CO2_tpy_def N_deployed_def)
  have vz: "CO2_fleet ?z 0 = 4599 / 4"
    by (simp add: example_inputs_def CO2_fleet_def CO2_tpy_def N_deployed_def)
  from year1_summary_source [OF r T(3)] T(2)
  have a: "yr_y (res_years (projr (runFinancialModel example_inputs)) ! 1) = 1"
    and b: "res_CO2_fleet_yr1 (projr (runFinancialModel example_inputs))
       = yr_CO2_fleet (res_years (projr (runFinancialModel example_inputs)) ! 1)"
    and c: "res_yr1_revenue (projr (runFinancialModel example_inputs))
       = yr_R_total (res_years (projr (runFinancialModel example_inputs)) ! 1)"
    and d: "res_yr1_opex (projr (runFinancialModel example_inputs))
       = yr_OPEX (res_years (projr (runFinancialModel example_inputs)) ! 1)"
    by auto
  have e: "res_CO2_fleet_yr1 (projr (runFinancialModel example_inputs)) = 4599 / 2"
    using b result_record_at(2) [OF T(1) n] v by simp
  from year1_summary_source [OF rz Tz(3)] Tz(2)
  have az: "yr_y (res_years (projr (runFinancialModel ?z)) ! 0) = 0"
    and bz: "res_CO2_fleet_yr1 (projr (runFinancialModel ?z))
       = yr_CO2_fleet (res_years (projr (runFinancialModel ?z)) ! 0)"
    by auto
  have ez: "res_CO2_fleet_yr1 (projr (runFinancialModel ?z)) = 4599 / 4"
    using bz result_record_at(2) [OF Tz(1) nz] vz by simp
  from r T(2,3) a b c d e rz Tz(3) az bz ez show ?thesis by blast
qed

lemma cmp_gt_iff:
  "a \<noteq> NaN \<Longrightarrow> b \<noteq> NaN \<Longrightarrow> js_gt (js_sub b a) (Fin 0) = js_lt a b"
  by (cases a; cases b) (auto simp: js_sub_def js_gt_def)

lemma js_ge_trans: "js_ge a b \<Longrightarrow> js_ge b c \<Longrightarrow> js_ge a c"
  by (cases a; cases b; cases c) (auto simp: js_ge_def)

lemma js_lt_imp_ge: "js_lt a b \<Longrightarrow> js_ge b a"
  by (cases a; cases b) (auto simp: js_ge_def)

lemma set_js_sort_insert: "set (js_sort_insert cmp x zs) = insert x (set zs)"
  by (induction zs) auto

lemma mset_js_sort_insert: "mset (js_sort_insert cmp x zs) = add_mset x (mset zs)"
  by (induction zs) auto

lemma sorted_js_sort_insert:
  assumes "sorted_wrt delta_ge zs" and "\<forall>e\<in>set zs. se_delta e \<noteq> NaN" and "se_delta x \<noteq> NaN"
  shows "sorted_wrt delta_ge (js_sort_insert by_delta_desc x zs)"
  using assms
proof (induction zs)
  case Nil
  then show ?case by simp
next
  case (Cons z zs)
  have nn: "se_delta z \<noteq> NaN" using Cons.prems(2) by simp
  show ?case
  proof (cases "js_gt (by_delta_desc z x) (Fin 0)")
    case True
    then have "js_lt (se_delta z) (se_delta x)"
      using cmp_gt_iff [OF nn Cons.prems(3)] by (simp add: by_delta_desc_def)
    then have xz: "delta_ge x z" by (simp add: delta_ge_def js_lt_imp_ge)
    have "delta_ge x e" if "e \<in> set zs" for e
      using xz Cons.prems(1) that js_ge_trans unfolding delta_ge_def by auto
    then show ?thesis using True xz Cons.prems(1) by auto
  next
    case False
    then have "\<not> js_lt (se_delta z) (se_delta x)"
      using cmp_gt_iff [OF nn Cons.prems(3)] by (simp add: by_delta_desc_def)
    then have zx: "delta_ge z x"
      using nn Cons.prems(3) by (simp add: delta_ge_def js_ge_def)
    have "sorted_wrt delta_ge (js_sort_insert by_delta_desc x zs)"
      using Cons by simp
    then show ?thesis
      using False zx Cons.prems(1) by (auto simp: set_js_sort_insert)
  qed
qed

lemma mset_js_sort_fold:
  "mset (foldl (\<lambda>sorted_part x. js_sort_insert cmp x sorted_part) acc xs) = mset acc + mset xs"
  by (induction xs arbitrary: acc) (simp_all add: mset_js_sort_insert)

lemma mset_js_sort: "mset (js_sort cmp xs) = mset xs"
  by (simp add: js_sort_def mset_js_sort_fold)

lemma sorted_js_sort_fold:
  assumes "sorted_wrt delta_ge acc" and "\<forall>e\<in>set acc. se_delta e \<noteq> NaN"
    and "\<forall>e\<in>set xs. se_delta e \<noteq> NaN"
  shows "sorted_wrt delta_ge (foldl (\<lambda>sorted_part x. js_sort_insert by_delta_desc x sorted_part) acc xs)"
  using assms
proof (induction xs arbitrary: acc)
  case Nil
  then show ?case by simp
next
  case (Cons x xs)
  have "sorted_wrt delta_ge (js_sort_insert by_delta_desc x acc)"
    using Cons.prems by (intro sorted_js_sort_insert) auto
  moreover have "\<forall>e\<in>set (js_sort_insert by_delta_desc x acc). se_delta e \<noteq> NaN"
    using Cons.prems by (simp add: set_js_sort_insert)
  ultimately show ?case using Cons by simp
qed

lemma get_set_param:
  "get_param (set_param inp p v) q = (if q = p then v else get_param inp q)"
  by (cases p; cases q) simp_all

lemma T_project_set_param: "T_project (set_param inp p v) = T_project inp"
  by (cases p) simp_all

lemma runFinancialModel_throws: "T_project inp < 0 \<Longrightarrow> runFinancialModel inp = Inl TypeError"
  using runFinancialModel_returns [of inp]
  by (cases "runFinancialModel inp") (auto, metis js_error.exhaust)

lemma npv_or_base_eq:
  "npv_or_base inp n =
     (if 0 \<le> T_project inp then foldl js_add (Fin 0) (map (DCF inp) [0..<num_years inp]) else n)"
proof (cases "0 \<le> T_project inp")
  case True
  then obtain res where res: "runFinancialModel inp = Inr res"
    using runFinancialModel_returns by blast
  show ?thesis
    using True npv_cumulative [of inp] result_fields(2) [OF res]
    by (simp add: npv_or_base_def res)
next
  case False
  then show ?thesis by (simp add: npv_or_base_def runFinancialModel_throws)
qed

lemmas sens_eval = params_def sens_of_def lo_inputs_def hi_inputs_def npv_or_base_eq num_years_def

lemma example_sens_entries:
  "map (sens_of (example_inputs\<lparr>T_project := 0\<rparr>) (Fin (- (84586899 / 280)))) params =
     [\<lparr>se_key = K_CR_45Q, se_npv_lo = Fin (- (10915413 / 35)),
        se_npv_hi = Fin (- (40925247 / 140)), se_delta = Fin (78183 / 4), se_base_val = 85\<rparr>,
      \<lparr>se_key = K_CO2_tpd, se_npv_lo = Fin (- (50261217 / 140)),
        se_npv_hi = Fin (- (9949623 / 35)), se_delta = Fin (298935 / 4), se_base_val = 7 / 2\<rparr>,
      \<lparr>se_key = K_f_avail, se_npv_lo = Fin (- (245566533 / 700)),
        se_npv_hi = Fin (- (51183003 / 175)), se_delta = Fin (5833503 / 100),
        se_base_val = 9 / 10\<rparr>,
      \<lparr>se_key = K_P_offtake, se_npv_lo = Fin (- (86840409 / 280)),
        se_npv_hi = Fin (- (82333389 / 280)), se_delta = Fin (32193 / 2), se_base_val = 70\<rparr>,
      \<lparr>se_key = K_P_elec, se_npv_lo = Fin (- (411455391 / 1400)),
        se_npv_hi = Fin (- (434413599 / 1400)), se_delta = Fin (409968 / 25),
        se_base_val = 2 / 25\<rparr>,
      \<lparr>se_key = K_r_disc, se_npv_lo = Fin (- (84586899 / 280)),
        se_npv_hi = Fin (- (84586899 / 280)), se_delta = Fin 0, se_base_val = 10\<rparr>,
      \<lparr>se_key = K_N_units, se_npv_lo = Fin (- (84586899 / 280)),
        se_npv_hi = Fin (- (84586899 / 280)), se_delta = Fin 0, se_base_val = 2\<rparr>,
      \<lparr>se_key = K_T_ads_life, se_npv_lo = Fin (- (84786899 / 280)),
        se_npv_hi = Fin (- (253360697 / 840)), se_delta = Fin (25000 / 21), se_base_val = 7\<rparr>]"
  by (simp add: sens_eval example_inputs_def year_eval)

lemma example_sens_sorted_keys:
  "map se_key (runSensitivity (example_inputs\<lparr>T_project := 0\<rparr>) (Fin (- (84586899 / 280)))) =
     [K_CO2_tpd, K_f_avail, K_CR_45Q, K_P_elec, K_P_offtake, K_T_ads_life, K_r_disc, K_N_units]
   \<and> map se_delta (runSensitivity (example_inputs\<lparr>T_project := 0\<rparr>) (Fin (- (84586899 / 280)))) =
     [Fin (298935 / 4), Fin (5833503 / 100), Fin (78183 / 4), Fin (409968 / 25),
      Fin (32193 / 2), Fin (25000 / 21), Fin 0, Fin 0]"
  by (simp add: runSensitivity_def example_sens_entries js_sort_def by_delta_desc_def js_sub_def
      js_gt_def)

text \<open>
  What the sweep does on every input: it returns eight entries, a rearrangement of the
  entries computed for the eight parameters in table order. For each parameter the low and
  the high inputs are the base inputs with that one field multiplied by 0.8 and by 1.2,
  every other field unchanged; each side's NPV is that of the perturbed run, or the
  supplied base NPV when the run throws (as every run does when the horizon is negative);
  delta is \<open>|npv_hi - npv_lo|\<close>. When no delta is NaN, the returned entries are in
  descending order of delta.
\<close>

theorem sensitivity_sweep_properties:
  "length (runSensitivity b n) = 8
   \<and> mset (runSensitivity b n) = mset (map (sens_of b n) params)
   \<and> map se_key (map (sens_of b n) params) = params
   \<and> lo_inputs b K_CR_45Q = b\<lparr>CR_45Q := CR_45Q b * 0.8\<rparr>
   \<and> hi_inputs b K_CR_45Q = b\<lparr>CR_45Q := CR_45Q b * 1.2\<rparr>
   \<and> lo_inputs b K_CO2_tpd = b\<lparr>CO2_tpd := CO2_tpd b * 0.8\<rparr>
   \<and> hi_inputs b K_CO2_tpd = b\<lparr>CO2_tpd := CO2_tpd b * 1.2\<rparr>
   \<and> lo_inputs b K_f_avail = b\<lparr>f_avail := f_avail b * 0.8\<rparr>
   \<and> hi_inputs b K_f_avail = b\<lparr>f_avail := f_avail b * 1.2\<rparr>
   \<and> lo_inputs b K_P_offtake = b\<lparr>P_offtake := P_offtake b * 0.8\<rparr>
   \<and> hi_inputs b K_P_offtake = b\<lparr>P_offtake := P_offtake b * 1.2\<rparr>
   \<and> lo_inputs b K_P_elec = b\<lparr>P_elec := P_elec b * 0.8\<rparr>
   \<and> hi_inputs b K_P_elec = b\<lparr>P_elec := P_elec b * 1.2\<rparr>
   \<and> lo_inputs b K_r_disc = b\<lparr>r_disc := r_disc b * 0.8\<rparr>
   \<and> hi_inputs b K_r_disc = b\<lparr>r_disc := r_disc b * 1.2\<rparr>
   \<and> lo_inputs b K_N_units = b\<lparr>N_units := N_units b * 0.8\<rparr>
   \<and> hi_inputs b K_N_units = b\<lparr>N_units := N_units b * 1.2\<rparr>
   \<and> lo_inputs b K_T_ads_life = b\<lparr>T_ads_life := T_ads_life b * 0.8\<rparr>
   \<and> hi_inputs b K_T_ads_life = b\<lparr>T_ads_life := T_ads_life b * 1.2\<rparr>
   \<and> get_param (lo_inputs b p) p = get_param b p * 0.8
   \<and> get_param (hi_inputs b p) p = get_param b p * 1.2
   \<and> (q \<noteq> p \<longrightarrow> get_param (lo_inputs b p) q = get_param b q
                   \<and> get_param (hi_inputs b p) q = get_param b q)
   \<and> se_npv_lo (sens_of b n p) =
        (case runFinancialModel (lo_inputs b p) of Inr res \<Rightarrow> res_NPV res | Inl e \<Rightarrow> n)
   \<and> se_npv_hi (sens_of b n p) =
        (case runFinancialModel (hi_inputs b p) of Inr res \<Rightarrow> res_NPV res | Inl e \<Rightarrow> n)
   \<and> se_delta (sens_of b n p) = js_abs (js_sub (se_npv_hi (sens_of b n p)) (se_npv_lo (sens_of b n p)))
   \<and> (T_project b < 0 \<longrightarrow> se_npv_lo (sens_of b n p) = n \<and> se_npv_hi (sens_of b n p) = n)
   \<and> ((\<forall>e\<in>set (runSensitivity b n). se_delta e \<noteq> NaN) \<longrightarrow>
        sorted_by_delta_desc (runSensitivity b n))"
proof -
  have m: "mset (runSensitivity b n) = mset (map (sens_of b n) params)"
    by (simp add: runSensitivity_def mset_js_sort)
  then have "length (runSensitivity b n) = length (map (sens_of b n) params)"
    by (metis size_mset)
  then have len: "length (runSensitivity b n) = 8" by (simp add: params_def)
  have keys: "map se_key (map (sens_of b n) params) = params"
    by (simp add: params_def sens_of_def Let_def)
  have thr: "se_npv_lo (sens_of b n p) = n \<and> se_npv_hi (sens_of b n p) = n" if "T_project b < 0"
    using that
    by (simp add: sens_of_def Let_def npv_or_base_def lo_inputs_def hi_inputs_def
        runFinancialModel_throws T_project_set_param)
  have srt: "sorted_by_delta_desc (runSensitivity b n)"
    if h: "\<forall>e\<in>set (runSensitivity b n). se_delta e \<noteq> NaN"
  proof -
    have "set (runSensitivity b n) = set (map (sens_of b n) params)"
      using m by (metis set_mset_mset)
    then have "\<forall>e\<in>set (map (sens_of b n) params). se_delta e \<noteq> NaN" using h by simp
    then show ?thesis
      unfolding sorted_by_delta_desc_def runSensitivity_def js_sort_def
      by (intro sorted_js_sort_fold) simp_all
  qed
  have upd:
    "lo_inputs b K_CR_45Q = b\<lparr>CR_45Q := CR_45Q b * 0.8\<rparr>"
    "hi_inputs b K_CR_45Q = b\<lparr>CR_45Q := CR_45Q b * 1.2\<rparr>"
    "lo_inputs b K_CO2_tpd = b\<lparr>CO2_tpd := CO2_tpd b * 0.8\<rparr>"
    "hi_inputs b K_CO2_tpd = b\<lparr>CO2_tpd := CO2_tpd b * 1.2\<rparr>"
    "lo_inputs b K_f_avail = b\<lparr>f_avail := f_avail b * 0.8\<rparr>"
    "hi_inputs b K_f_avail = b\<lparr>f_avail := f_avail b * 1.2\<rparr>"
    "lo_inputs b K_P_offtake = b\<lparr>P_offtake := P_offtake b * 0.8\<rparr>"
    "hi_inputs b K_P_offtake = b\<lparr>P_offtake := P_offtake b * 1.2\<rparr>"
    "lo_inputs b K_P_elec = b\<lparr>P_elec := P_elec b * 0.8\<rparr>"
    "hi_inputs b K_P_elec = b\<lparr>P_elec := P_elec b * 1.2\<rparr>"
    "lo_inputs b K_r_disc = b\<lparr>r_disc := r_disc b * 0.8\<rparr>"
    "hi_inputs b K_r_disc = b\<lparr>r_disc := r_disc b * 1.2\<rparr>"
    "lo_inputs b K_N_units = b\<lparr>N_units := N_units b * 0.8\<rparr>"
    "hi_inputs b K_N_units = b\<lparr>N_units := N_units b * 1.2\<rparr>"
    "lo_inputs b K_T_ads_life = b\<lparr>T_ads_life := T_ads_life b * 0.8\<rparr>"
    "hi_inputs b K_T_ads_life = b\<lparr>T_ads_life := T_ads_life b * 1.2\<rparr>"
    by (simp_all add: lo_inputs_def hi_inputs_def)
  have per:
    "get_param (lo_inputs b p) p = get_param b p * 0.8"
    "get_param (hi_inputs b p) p = get_param b p * 1.2"
    "q \<noteq> p \<longrightarrow> get_param (lo_inputs b p) q = get_param b q
                   \<and> get_param (hi_inputs b p) q = get_param b q"
    "se_npv_lo (sens_of b n p) =
        (case runFinancialModel (lo_inputs b p) of Inr res \<Rightarrow> res_NPV res | Inl e \<Rightarrow> n)"
    "se_npv_hi (sens_of b n p) =
        (case runFinancialModel (hi_inputs b p) of Inr res \<Rightarrow> res_NPV res | Inl e \<Rightarrow> n)"
    "se_delta (sens_of b n p) = js_abs (js_sub (se_npv_hi (sens_of b n p)) (se_npv_lo (sens_of b n p)))"
    by (simp_all add: get_set_param lo_inputs_def hi_inputs_def sens_of_def Let_def npv_or_base_def)
  show ?thesis
    using m len keys thr srt upd per by blast
qed

theorem sensitivity_sweep_properties_witness:
  "map se_key (runSensitivity (example_inputs\<lparr>T_project := 0\<rparr>) (Fin (- (84586899 / 280)))) =
     [K_CO2_tpd, K_f_avail, K_CR_45Q, K_P_elec, K_P_offtake, K_T_ads_life, K_r_disc, K_N_units]
   \<and> map se_delta (runSensitivity (example_inputs\<lparr>T_project := 0\<rparr>) (Fin (- (84586899 / 280)))) =
     [Fin (298935 / 4), Fin (5833503 / 100), Fin (78183 / 4), Fin (409968 / 25),
      Fin (32193 / 2), Fin (25000 / 21), Fin 0, Fin 0]
   \<and> length (runSensitivity (example_inputs\<lparr>T_project := 0\<rparr>) (Fin (- (84586899 / 280)))) = 8
   \<and> sorted_by_delta_desc
        (runSensitivity (example_inputs\<lparr>T_project := 0\<rparr>) (Fin (- (84586899 / 280))))
   \<and> T_project (example_inputs\<lparr>T_project := - 1\<rparr>) < 0
   \<and> se_npv_lo (sens_of (example_inputs\<lparr>T_project := - 1\<rparr>) (Fin 5) K_r_disc) = Fin 5
   \<and> se_npv_hi (sens_of (example_inputs\<lparr>T_project := - 1\<rparr>) (Fin 5) K_r_disc) = Fin 5
   \<and> get_param (lo_inputs example_inputs K_r_disc) K_r_disc = 8
   \<and> get_param (hi_inputs example_inputs K_r_disc) K_r_disc = 12
   \<and> get_param (lo_inputs example_inputs K_r_disc) K_N_units = 2"
proof -
  let ?out = "runSensitivity (example_inputs\<lparr>T_project := 0\<rparr>) (Fin (- (84586899 / 280)))"
  note d = example_sens_sorted_keys [THEN conjunct2]
  have "\<forall>x\<in>set (map se_delta ?out). x \<noteq> NaN"
    by (simp only: d) simp
  then have nn: "\<forall>e\<in>set ?out. se_delta e \<noteq> NaN" by simp
  from sensitivity_sweep_properties
         [of "example_inputs\<lparr>T_project := 0\<rparr>" "Fin (- (84586899 / 280))" K_CR_45Q K_CR_45Q] nn
  have a: "length ?out = 8" and b: "sorted_by_delta_desc ?out" by blast+
  have neg: "T_project (example_inputs\<lparr>T_project := - 1\<rparr>) < 0" by simp
  from sensitivity_sweep_properties
         [of "example_inputs\<lparr>T_project := - 1\<rparr>" "Fin 5" K_r_disc K_r_disc] neg
  have c: "se_npv_lo (sens_of (example_inputs\<lparr>T_project := - 1\<rparr>) (Fin 5) K_r_disc) = Fin 5"
    and c': "se_npv_hi (sens_of (example_inputs\<lparr>T_project := - 1\<rparr>) (Fin 5) K_r_disc) = Fin 5"
    by blast+
  have ne: "K_N_units \<noteq> K_r_disc" by simp
  from sensitivity_sweep_properties [of example_inputs "Fin 0" K_r_disc K_N_units] ne
  have e: "get_param (lo_inputs example_inputs K_r_disc) K_r_disc
             = get_param example_inputs K_r_disc * 0.8"
    and f: "get_param (hi_inputs example_inputs K_r_disc) K_r_disc
             = get_param example_inputs K_r_disc * 1.2"
    and g: "get_param (lo_inputs example_inputs K_r_disc) K_N_units
             = get_param example_inputs K_N_units"
    by blast+
  have v: "get_param example_inputs K_r_disc = 10" "get_param example_inputs K_N_units = 2"
    by (simp_all add: example_inputs_def)
  have e': "get_param (lo_inputs example_inputs K_r_disc) K_r_disc = 8"
    and f': "get_param (hi_inputs example_inputs K_r_disc) K_r_disc = 12"
    and g': "get_param (lo_inputs example_inputs K_r_disc) K_N_units = 2"
    using e f g v by simp_all
  from example_sens_sorted_keys a b neg c c' e' f' g' show ?thesis by blast
qed






end
